theory Spec2Isabelle
  imports Complex_Main
begin

section \<open>Automatic oversampling factor (vtkCalculateOversamplingFactor.cxx)\<close>

text \<open>
  The doubles of the source are embedded as reals, except in
  ApplyOversamplingOnImageGeometry: there an int is cast from the ceiling and the floor
  of a double product, which depend on its rounding, and a spacing can become infinite,
  so the doubles of that function are binary64 values with their rounding and their
  special values. Where the source leaves the defined behaviour of C++ (int arithmetic
  or a double-to-int conversion that leaves the range of a 32-bit int), or where a
  quotient of reals would have a zero divisor, the embedding returns a \<open>fault\<close>
  instead of continuing with an unbounded integer or with HOL's \<open>x / 0 = 0\<close>.
\<close>

datatype fault = NotFinite | IntOverflow

datatype diagnostic = Error string | Warning string | Debug string

subsection \<open>vtkPiecewiseFunction\<close>

text \<open>
  Modelled from the spec: the class vtkPiecewiseFunction belongs to the VTK library and
  is not among the sources. A function is its ordered sequence of control points
  (x, degree), here \<open>node\<close>s, without two nodes at one x.
\<close>

type_synonym node = "real \<times> real"
type_synonym vtkPiecewiseFunction = "node list"

text \<open>
  Modelled from the spec: RemovePoint of vtkPiecewiseFunction, which removes the node
  at the given x when there is one.
\<close>

fun RemovePoint :: "real \<Rightarrow> vtkPiecewiseFunction \<Rightarrow> vtkPiecewiseFunction" where
  "RemovePoint x [] = []"
| "RemovePoint x (n # ns) = (if fst n = x then ns else n # RemovePoint x ns)"

text \<open>
  Modelled from the spec: AddPoint of vtkPiecewiseFunction. It removes a node already
  at this x, appends the new node and sorts the nodes by x, so that the sequence stays
  ordered and without a duplicate x.
\<close>

definition AddPoint :: "real \<Rightarrow> real \<Rightarrow> vtkPiecewiseFunction \<Rightarrow> vtkPiecewiseFunction" where
  "AddPoint x y f = sort_key fst (RemovePoint x f @ [(x, y)])"

text \<open>
  Modelled from the spec: GetValue of vtkPiecewiseFunction. Between two neighbouring
  nodes the value is the linear interpolation of their degrees; before the first and
  after the last node it is the degree of that node. A function without nodes has the
  value 0.
\<close>

fun GetValue :: "vtkPiecewiseFunction \<Rightarrow> real \<Rightarrow> real" where
  "GetValue [] x = 0"
| "GetValue [(x1, y1)] x = y1"
| "GetValue ((x1, y1) # (x2, y2) # ns) x =
     (if x \<le> x1 then y1
      else if x \<le> x2 then (let s = (x - x1) / (x2 - x1) in (1 - s) * y1 + s * y2)
      else GetValue ((x2, y2) # ns) x)"

text \<open>The x-coordinates of a well-formed function increase strictly.\<close>

definition strictly_increasing_x :: "vtkPiecewiseFunction \<Rightarrow> bool" where
  "strictly_increasing_x f = sorted_wrt (<) (map fst f)"

subsection \<open>ClipMembershipFunction\<close>

text \<open>
  First loop: for every pair of neighbouring nodes whose values lie strictly on both
  sides of the clip value, the parameter value of the crossing.
\<close>

fun newNodeParameterValues :: "real \<Rightarrow> vtkPiecewiseFunction \<Rightarrow> real list" where
  "newNodeParameterValues clipValue (currentNode # nextNode # ns) =
     (if (snd currentNode < clipValue \<and> snd nextNode > clipValue)
         \<or> (snd currentNode > clipValue \<and> snd nextNode < clipValue)
      then [((fst nextNode - fst currentNode) * (snd currentNode - clipValue))
              / (snd currentNode - snd nextNode) + fst currentNode]
      else [])
     @ newNodeParameterValues clipValue (nextNode # ns)"
| "newNodeParameterValues clipValue ns = []"

text \<open>
  Second loop: every node whose value exceeds the clip value is set to it by
  SetNodeValue; its x is unchanged, so the order of the nodes is unchanged too.
\<close>

definition moveNodeDown :: "real \<Rightarrow> node \<Rightarrow> node" where
  "moveNodeDown clipValue currentNode =
     (if snd currentNode > clipValue then (fst currentNode, clipValue) else currentNode)"

definition moveNodesDown :: "real \<Rightarrow> vtkPiecewiseFunction \<Rightarrow> vtkPiecewiseFunction" where
  "moveNodesDown clipValue f =
     fold (\<lambda>nodeIndex g. g[nodeIndex := moveNodeDown clipValue (g ! nodeIndex)])
       [0 ..< length f] f"

text \<open>Third loop: a node at every crossing, in the order the crossings were found.\<close>

definition addNewNodes :: "real \<Rightarrow> real list \<Rightarrow> vtkPiecewiseFunction \<Rightarrow> vtkPiecewiseFunction" where
  "addNewNodes clipValue points f = fold (\<lambda>point g. AddPoint point clipValue g) points f"

definition ClipMembershipFunction ::
  "vtkPiecewiseFunction \<Rightarrow> real \<Rightarrow> vtkPiecewiseFunction" where
  "ClipMembershipFunction membershipFunction clipValue =
     (if clipValue \<ge> 1 then membershipFunction
      else addNewNodes clipValue (newNodeParameterValues clipValue membershipFunction)
             (moveNodesDown clipValue membershipFunction))"

subsection \<open>The membership functions of DetermineOversamplingFactor\<close>

definition sizeLarge :: vtkPiecewiseFunction where
  "sizeLarge = AddPoint 2 0 (AddPoint 0.5 1 [])"

definition sizeMedium :: vtkPiecewiseFunction where
  "sizeMedium = AddPoint 3 0 (AddPoint 2.5 1 (AddPoint 2 1 (AddPoint 0.5 0 [])))"

definition sizeSmall :: vtkPiecewiseFunction where
  "sizeSmall = AddPoint 3.75 0 (AddPoint 3.25 1 (AddPoint 3 1 (AddPoint 2.5 0 [])))"

definition sizeVerySmall :: vtkPiecewiseFunction where
  "sizeVerySmall = AddPoint 3.75 1 (AddPoint 3.25 0 [])"

definition complexityLow :: vtkPiecewiseFunction where
  "complexityLow = AddPoint 0.6 0 (AddPoint 0.2 1 [])"

definition complexityHigh :: vtkPiecewiseFunction where
  "complexityHigh = AddPoint 0.6 1 (AddPoint 0.2 0 [])"

definition oversamplingLow :: vtkPiecewiseFunction where
  "oversamplingLow = AddPoint 0.25 0 (AddPoint (- 0.75) 1 (AddPoint (- 1.25) 1 []))"

definition oversamplingNormal :: vtkPiecewiseFunction where
  "oversamplingNormal =
     AddPoint 0.75 0 (AddPoint 0.25 1 (AddPoint 0.25 1 (AddPoint (- 0.75) 0 [])))"

definition oversamplingHigh :: vtkPiecewiseFunction where
  "oversamplingHigh =
     AddPoint 1.75 0 (AddPoint 1.25 1 (AddPoint 0.75 1 (AddPoint 0.25 0 [])))"

definition oversamplingVeryHigh :: vtkPiecewiseFunction where
  "oversamplingVeryHigh = AddPoint 2.25 1 (AddPoint 1.75 1 (AddPoint 1.25 0 []))"

subsection \<open>Rules and consequents\<close>

text \<open>
  The first half of DetermineOversamplingFactor: the inputs are fuzzified, the six
  clipping values are computed, and a copy of the output function of every rule is
  clipped with the rule's value and pushed to the vector \<open>consequents\<close>, rule 1 to
  rule 6.
\<close>

definition consequents :: "real \<Rightarrow> real \<Rightarrow> vtkPiecewiseFunction list" where
  "consequents relativeStructureSize complexityMeasure =
     (let sizeLargeMembership = GetValue sizeLarge relativeStructureSize;
          sizeMediumMembership = GetValue sizeMedium relativeStructureSize;
          sizeSmallMembership = GetValue sizeSmall relativeStructureSize;
          sizeVerySmallMembership = GetValue sizeVerySmall relativeStructureSize;
          complexityLowMembership = GetValue complexityLow complexityMeasure;
          complexityHighMembership = GetValue complexityHigh complexityMeasure;
          rule1_OversamplingVeryHighClippingValue = sizeVerySmallMembership;
          rule2_OversamplingHighClippingValue = min sizeSmallMembership complexityHighMembership;
          rule3_OversamplingHighClippingValue = min sizeMediumMembership complexityHighMembership;
          rule4_OversamplingNormalClippingValue = min sizeSmallMembership complexityLowMembership;
          rule5_OversamplingNormalClippingValue = min sizeMediumMembership complexityLowMembership;
          rule6_OversamplingLowClippingValue = sizeLargeMembership;
          rule1_oversamplingVeryHigh =
            ClipMembershipFunction oversamplingVeryHigh rule1_OversamplingVeryHighClippingValue;
          rule2_OversamplingHigh =
            ClipMembershipFunction oversamplingHigh rule2_OversamplingHighClippingValue;
          rule3_OversamplingHigh =
            ClipMembershipFunction oversamplingHigh rule3_OversamplingHighClippingValue;
          rule4_OversamplingNormal =
            ClipMembershipFunction oversamplingNormal rule4_OversamplingNormalClippingValue;
          rule5_OversamplingNormal =
            ClipMembershipFunction oversamplingNormal rule5_OversamplingNormalClippingValue;
          rule6_OversamplingLow =
            ClipMembershipFunction oversamplingLow rule6_OversamplingLowClippingValue
      in [rule1_oversamplingVeryHigh, rule2_OversamplingHigh, rule3_OversamplingHigh,
          rule4_OversamplingNormal, rule5_OversamplingNormal, rule6_OversamplingLow])"

subsection \<open>Areas and centroids\<close>

text \<open>
  Area and centroid of the trapezoid between two neighbouring nodes. The quotient of
  the centroid is taken only when \<open>topTriangleArea > 0\<close>; its divisor is the area of
  the trapezoid, and a trapezoid whose area is not positive is not kept below, so a
  zero divisor never reaches the result.
\<close>

definition trapezoid :: "node \<Rightarrow> node \<Rightarrow> real \<times> real" where
  "trapezoid currentNode nextNode =
     (let bottomRectangleArea =
            (fst nextNode - fst currentNode) * min (snd nextNode) (snd currentNode);
          bottomRectangleCentroid = (fst nextNode + fst currentNode) / 2;
          (topTriangleArea, topTriangleCentroid) =
            (if snd nextNode > snd currentNode
             then ((fst nextNode - fst currentNode) * (snd nextNode - snd currentNode) / 2,
                   fst currentNode + (fst nextNode - fst currentNode) * 2 / 3)
             else if snd nextNode < snd currentNode
             then ((fst nextNode - fst currentNode) * (snd currentNode - snd nextNode) / 2,
                   fst currentNode + (fst nextNode - fst currentNode) / 3)
             else (0, 0));
          trapezoidArea = bottomRectangleArea + topTriangleArea;
          trapezoidCentroid =
            (if topTriangleArea > 0
             then (bottomRectangleArea * bottomRectangleCentroid
                     + topTriangleArea * topTriangleCentroid)
                  / (bottomRectangleArea + topTriangleArea)
             else bottomRectangleCentroid)
      in (trapezoidArea, trapezoidCentroid))"

fun sections :: "vtkPiecewiseFunction \<Rightarrow> (real \<times> real) list" where
  "sections (currentNode # nextNode # ns) =
     (if fst (trapezoid currentNode nextNode) > 0
      then [trapezoid currentNode nextNode] else [])
     @ sections (nextNode # ns)"
| "sections ns = []"

definition areaCentroidPairs :: "vtkPiecewiseFunction list \<Rightarrow> (real \<times> real) list" where
  "areaCentroidPairs fs = concat (map sections fs)"

definition nominator :: "(real \<times> real) list \<Rightarrow> real" where
  "nominator pairs = fold (\<lambda>trapezoidIt acc. acc + fst trapezoidIt * snd trapezoidIt) pairs 0"

definition denominator :: "(real \<times> real) list \<Rightarrow> real" where
  "denominator pairs = fold (\<lambda>trapezoidIt acc. acc + fst trapezoidIt) pairs 0"

text \<open>
  The combined centre of mass and the defuzzified factor. The source divides without
  a test; with a zero denominator the double quotient is not a finite number, and so
  is then the value returned.
\<close>

definition defuzzify :: "(real \<times> real) list \<Rightarrow> fault + real" where
  "defuzzify pairs =
     (if denominator pairs = 0 then Inl NotFinite
      else (let centerOfMass = nominator pairs / denominator pairs;
                calculatedOversamplingFactorPower = \<lfloor>centerOfMass + 0.5\<rfloor>
            in Inr (2 powi calculatedOversamplingFactorPower)))"

definition centreOfGravity :: "vtkPiecewiseFunction list \<Rightarrow> fault + real" where
  "centreOfGravity fs = defuzzify (areaCentroidPairs fs)"

definition DetermineOversamplingFactor ::
  "real \<Rightarrow> real \<Rightarrow> (fault + real) \<times> diagnostic list" where
  "DetermineOversamplingFactor relativeStructureSize complexityMeasure =
     (if relativeStructureSize = - 1 \<or> complexityMeasure = - 1
      then (Inr 1,
            [Error ''DetermineOversamplingFactor: Invalid input measures! Returning default oversampling of 1''])
      else (centreOfGravity (consequents relativeStructureSize complexityMeasure), []))"

text \<open>
  The rule table as the specification words it: the strength of every rule from the
  degrees of membership of the two inputs, and the output function the rule clips.
\<close>

definition spec_rules :: "((real \<Rightarrow> real \<Rightarrow> real) \<times> vtkPiecewiseFunction) list" where
  "spec_rules =
     [(\<lambda>sizeValue complexityValue. GetValue sizeVerySmall sizeValue, oversamplingVeryHigh),
      (\<lambda>sizeValue complexityValue. min (GetValue sizeSmall sizeValue) (GetValue complexityHigh complexityValue),
         oversamplingHigh),
      (\<lambda>sizeValue complexityValue. min (GetValue sizeMedium sizeValue) (GetValue complexityHigh complexityValue),
         oversamplingHigh),
      (\<lambda>sizeValue complexityValue. min (GetValue sizeSmall sizeValue) (GetValue complexityLow complexityValue),
         oversamplingNormal),
      (\<lambda>sizeValue complexityValue. min (GetValue sizeMedium sizeValue) (GetValue complexityLow complexityValue),
         oversamplingNormal),
      (\<lambda>sizeValue complexityValue. GetValue sizeLarge sizeValue, oversamplingLow)]"

definition spec_clipped_outputs :: "real \<Rightarrow> real \<Rightarrow> vtkPiecewiseFunction list" where
  "spec_clipped_outputs sizeValue complexityValue =
     map (\<lambda>(strength, output). ClipMembershipFunction output (strength sizeValue complexityValue))
       spec_rules"

subsection \<open>32-bit int arithmetic and double division\<close>

definition INT_MIN :: int where
  "INT_MIN = - (2 ^ 31)"

definition INT_MAX :: int where
  "INT_MAX = 2 ^ 31 - 1"

definition int_result :: "int \<Rightarrow> fault + int" where
  "int_result i = (if INT_MIN \<le> i \<and> i \<le> INT_MAX then Inr i else Inl IntOverflow)"

definition int_add :: "int \<Rightarrow> int \<Rightarrow> fault + int" where
  "int_add a b = int_result (a + b)"

definition int_sub :: "int \<Rightarrow> int \<Rightarrow> fault + int" where
  "int_sub a b = int_result (a - b)"

definition int_mul :: "int \<Rightarrow> int \<Rightarrow> fault + int" where
  "int_mul a b = int_result (a * b)"

definition double_div :: "real \<Rightarrow> real \<Rightarrow> fault + real" where
  "double_div a b = (if b = 0 then Inl NotFinite else Inr (a / b))"

definition bind_fault :: "fault + 'a \<Rightarrow> ('a \<Rightarrow> fault + 'b) \<Rightarrow> fault + 'b" where
  "bind_fault r f = (case r of Inl e \<Rightarrow> Inl e | Inr v \<Rightarrow> f v)"

subsection \<open>Binary64 doubles\<close>

text \<open>
  A double is a finite value (\<open>Finite 0\<close> is the positive zero), the negative zero, an
  infinity or a NaN.
\<close>

datatype double = Finite real | NegZero | PlusInfinity | MinusInfinity | NaN

fun is_zero :: "double \<Rightarrow> bool" where
  "is_zero (Finite x) = (x = 0)"
| "is_zero NegZero = True"
| "is_zero d = False"

fun is_infinite :: "double \<Rightarrow> bool" where
  "is_infinite PlusInfinity = True"
| "is_infinite MinusInfinity = True"
| "is_infinite d = False"

fun sign_bit :: "double \<Rightarrow> bool" where
  "sign_bit (Finite x) = (x < 0)"
| "sign_bit NegZero = True"
| "sign_bit MinusInfinity = True"
| "sign_bit d = False"

fun finite_value :: "double \<Rightarrow> real" where
  "finite_value (Finite x) = x"
| "finite_value d = 0"

definition signed_zero :: "bool \<Rightarrow> double" where
  "signed_zero negative = (if negative then NegZero else Finite 0)"

definition signed_infinity :: "bool \<Rightarrow> double" where
  "signed_infinity negative = (if negative then MinusInfinity else PlusInfinity)"

text \<open>
  Rounding to nearest, ties to even, with 53 bits of precision: the exponent of the
  binade of \<open>x\<close>, the spacing of the doubles around \<open>x\<close> (that of the subnormal
  numbers below \<open>2 powi - 1022\<close>), and the nearest multiple of that spacing. A result
  of magnitude \<open>2 ^ 1024\<close> or more overflows to an infinity; a result that underflows
  to zero keeps the sign of \<open>x\<close>.
\<close>

definition binade :: "real \<Rightarrow> int" where
  "binade x = (if x = 0 then 0 else \<lfloor>log 2 \<bar>x\<bar>\<rfloor>)"

definition quantum :: "real \<Rightarrow> real" where
  "quantum x = 2 powi (max (binade x) (- 1022) - 52)"

definition round_even :: "real \<Rightarrow> int" where
  "round_even y =
     (let f = \<lfloor>y\<rfloor>; r = y - real_of_int f
      in if r < 1 / 2 then f else if r > 1 / 2 then f + 1 else if even f then f else f + 1)"

definition round_double :: "real \<Rightarrow> double" where
  "round_double x =
     (let r = real_of_int (round_even (x / quantum x)) * quantum x
      in if r = 0 then signed_zero (x < 0)
         else if \<bar>r\<bar> \<ge> 2 ^ 1024 then signed_infinity (x < 0)
         else Finite r)"

text \<open>The product, the quotient and the difference of two doubles.\<close>

definition d_mul :: "double \<Rightarrow> double \<Rightarrow> double" where
  "d_mul a b =
     (if a = NaN \<or> b = NaN then NaN
      else if is_infinite a \<or> is_infinite b
      then (if is_zero a \<or> is_zero b then NaN else signed_infinity (sign_bit a \<noteq> sign_bit b))
      else if is_zero a \<or> is_zero b then signed_zero (sign_bit a \<noteq> sign_bit b)
      else round_double (finite_value a * finite_value b))"

definition d_div :: "double \<Rightarrow> double \<Rightarrow> double" where
  "d_div a b =
     (if a = NaN \<or> b = NaN then NaN
      else if is_infinite a
      then (if is_infinite b then NaN else signed_infinity (sign_bit a \<noteq> sign_bit b))
      else if is_infinite b then signed_zero (sign_bit a \<noteq> sign_bit b)
      else if is_zero b
      then (if is_zero a then NaN else signed_infinity (sign_bit a \<noteq> sign_bit b))
      else if is_zero a then signed_zero (sign_bit a \<noteq> sign_bit b)
      else round_double (finite_value a / finite_value b))"

definition d_sub :: "double \<Rightarrow> double \<Rightarrow> double" where
  "d_sub a b =
     (if a = NaN \<or> b = NaN then NaN
      else if is_infinite a
      then (if is_infinite b \<and> sign_bit a = sign_bit b then NaN else a)
      else if is_infinite b then signed_infinity (\<not> sign_bit b)
      else if finite_value a = finite_value b
      then (if a = NegZero \<and> b = Finite 0 then NegZero else Finite 0)
      else round_double (finite_value a - finite_value b))"

text \<open>
  \<open>ceil\<close> and \<open>floor\<close> of the C library: the result is an integral double, a zero
  result has the sign of the argument, and an infinity or a NaN is returned as it is.
\<close>

fun d_ceil :: "double \<Rightarrow> double" where
  "d_ceil (Finite x) = (if \<lceil>x\<rceil> = 0 \<and> x < 0 then NegZero else Finite (real_of_int \<lceil>x\<rceil>))"
| "d_ceil d = d"

fun d_floor :: "double \<Rightarrow> double" where
  "d_floor (Finite x) = Finite (real_of_int \<lfloor>x\<rfloor>)"
| "d_floor d = d"

text \<open>
  The conversion of an int to double is exact. The conversion of a double to int
  truncates; it is undefined when the truncated value is not in the range of int, and
  for an infinity and a NaN.
\<close>

definition double_of_int :: "int \<Rightarrow> double" where
  "double_of_int i = Finite (real_of_int i)"

fun static_cast_int :: "double \<Rightarrow> fault + int" where
  "static_cast_int (Finite x) = int_result (if x \<ge> 0 then \<lfloor>x\<rfloor> else \<lceil>x\<rceil>)"
| "static_cast_int NegZero = Inr 0"
| "static_cast_int d = Inl IntOverflow"

text \<open>The integer that a double is, when it is one.\<close>

fun integer_value :: "double \<Rightarrow> int option" where
  "integer_value (Finite x) = (if x = real_of_int \<lfloor>x\<rfloor> then Some \<lfloor>x\<rfloor> else None)"
| "integer_value NegZero = Some 0"
| "integer_value d = None"

subsection \<open>Image geometry and the state of the filter\<close>

type_synonym 'a vec3 = "'a \<times> 'a \<times> 'a"

text \<open>
  The geometry of a vtkOrientedImageData: the extent as (minimum, maximum) per axis,
  the spacing per axis, the origin and the direction matrix. The voxel values are not
  part of the model. The type of the doubles is a parameter: \<open>real\<close> where
  CalculateRelativeStructureSize reads the reference geometry, \<open>double\<close> where
  ApplyOversamplingOnImageGeometry changes an image.
\<close>

record 'n vtkOrientedImageData =
  Extent :: "(int \<times> int) vec3"
  Spacing :: "'n vec3"
  Origin :: "'n vec3"
  Directions :: "'n vec3 vec3"

text \<open>
  The mesh is opaque: what the filter reads of it are the three results of
  vtkMassProperties.
\<close>

datatype vtkPolyData = PolyData

record vtkMassProperties =
  Volume :: real
  VolumeProjected :: real
  NormalizedShapeIndex :: real

record vtkCalculateOversamplingFactor =
  InputPolyData :: "vtkPolyData option"
  ReferenceGeometryImageData :: "real vtkOrientedImageData option"
  MassPropertiesAlgorithm :: "vtkMassProperties option"
  OutputOversamplingFactor :: real

text \<open>
  The number of voxels along an axis, \<open>extent[1] - extent[0] + 1\<close> in int arithmetic,
  as ApplyOversamplingOnImageGeometry computes it and as GetDimensions returns it.
\<close>

definition GetDimension :: "int \<times> int \<Rightarrow> fault + int" where
  "GetDimension e = bind_fault (int_sub (snd e) (fst e)) (\<lambda>d. int_add d 1)"

subsection \<open>CalculateRelativeStructureSize\<close>

text \<open>
  The product of the three dimensions is an int product, taken before the
  multiplication with the spacing; the quotient and the logarithm leave the finite
  numbers when the reference volume is zero or the relative size is not positive.
\<close>

definition volumeVolume :: "real vtkOrientedImageData \<Rightarrow> fault + real" where
  "volumeVolume reference =
     (case (Extent reference, Spacing reference) of
        ((e0, e1, e2), (spacing0, spacing1, spacing2)) \<Rightarrow>
          bind_fault (GetDimension e0) (\<lambda>dimensions0.
          bind_fault (GetDimension e1) (\<lambda>dimensions1.
          bind_fault (GetDimension e2) (\<lambda>dimensions2.
          bind_fault (int_mul dimensions0 dimensions1) (\<lambda>d01.
          bind_fault (int_mul d01 dimensions2) (\<lambda>d012.
          Inr (real_of_int d012 * spacing0 * spacing1 * spacing2)))))))"

definition sizeMeasure :: "real \<Rightarrow> real vtkOrientedImageData \<Rightarrow> fault + real" where
  "sizeMeasure structureVolume reference =
     bind_fault (volumeVolume reference) (\<lambda>volumeVolume.
     bind_fault (double_div structureVolume volumeVolume) (\<lambda>relativeStructureSize.
     if relativeStructureSize \<le> 0 then Inl NotFinite
     else Inr ((- 1) * log 10 relativeStructureSize)))"

definition volume_warning :: diagnostic where
  "volume_warning = Debug ''CalculateRelativeStructureSize: Computed structure volume may be invalid according to difference in calculated projected and normal volumes.''"

definition size_report :: diagnostic where
  "size_report = Debug ''CalculateRelativeStructureSize: Relative structure size, size measure''"

definition CalculateRelativeStructureSize ::
  "vtkCalculateOversamplingFactor \<Rightarrow> (fault + real) \<times> diagnostic list" where
  "CalculateRelativeStructureSize this =
     (case InputPolyData this of
        None \<Rightarrow> (Inr (- 1), [Error ''CalculateRelativeStructureSize: Invalid input poly data!''])
      | Some polyData \<Rightarrow>
     (case ReferenceGeometryImageData this of
        None \<Rightarrow> (Inr (- 1),
          [Error ''CalculateRelativeStructureSize: Invalid rasterization reference volume node!''])
      | Some reference \<Rightarrow>
     (case MassPropertiesAlgorithm this of
        None \<Rightarrow> (Inr (- 1),
          [Error ''CalculateRelativeStructureSize: Invalid mass properties algorithm!''])
      | Some massProperties \<Rightarrow>
          (let structureVolume = Volume massProperties;
               structureProjectedVolume = VolumeProjected massProperties;
               error = structureVolume - structureProjectedVolume;
               sanity = (if error * 10000 > structureVolume then [volume_warning] else [])
           in (sizeMeasure structureVolume reference, sanity @ [size_report])))))"

subsection \<open>ApplyOversamplingOnImageGeometry\<close>

text \<open>
  The body of the loop over the three axes, for one axis: the new extent and the new
  spacing. The factor is a finite double, given by its value. The two products are
  double products, rounded before \<open>ceil\<close> and \<open>floor\<close> are taken; the new spacing
  is a double product divided by the new dimension, an infinity or a NaN when that
  dimension is zero.
\<close>

definition scaleAxis :: "real \<Rightarrow> int \<times> int \<Rightarrow> double \<Rightarrow> fault + ((int \<times> int) \<times> double)" where
  "scaleAxis oversamplingFactor extent spacing =
     bind_fault (GetDimension extent) (\<lambda>dimension.
     bind_fault (static_cast_int
         (d_ceil (d_mul (Finite oversamplingFactor) (double_of_int (fst extent)))))
       (\<lambda>extentMin.
     bind_fault (static_cast_int
         (d_floor (d_mul (Finite oversamplingFactor) (double_of_int dimension))))
       (\<lambda>scaled.
     bind_fault (int_add extentMin scaled) (\<lambda>extentEnd.
     bind_fault (int_sub extentEnd 1) (\<lambda>extentMax.
     bind_fault (GetDimension (extentMin, extentMax)) (\<lambda>newDimension.
     Inr ((extentMin, extentMax),
          d_div (d_mul spacing (double_of_int dimension)) (double_of_int newDimension))))))))"

definition unreasonable_factor :: diagnostic where
  "unreasonable_factor = Warning ''vtkCalculateOversamplingFactor::ApplyOversamplingOnImageGeometry: Oversampling factor seems unreasonable!''"

text \<open>
  The image is \<open>None\<close> for a null pointer. The image-to-world transformation of
  vtkOrientedImageData is not among the sources; it is the parameter \<open>imageToWorld\<close>,
  read from the image after its extent and spacing were set.
\<close>

definition ApplyOversamplingOnImageGeometry ::
  "(double vtkOrientedImageData \<Rightarrow> double vec3 \<Rightarrow> double vec3)
     \<Rightarrow> double vtkOrientedImageData option \<Rightarrow> real
     \<Rightarrow> fault + (double vtkOrientedImageData option \<times> diagnostic list)" where
  "ApplyOversamplingOnImageGeometry imageToWorld imageData oversamplingFactor =
     (case imageData of
        None \<Rightarrow> Inr (None, [])
      | Some grid \<Rightarrow>
          if oversamplingFactor < 0.01 \<or> oversamplingFactor > 100
          then Inr (Some grid, [unreasonable_factor])
          else if oversamplingFactor \<noteq> 1
          then (case (Extent grid, Spacing grid) of
                  ((e0, e1, e2), (spacing0, spacing1, spacing2)) \<Rightarrow>
            bind_fault (scaleAxis oversamplingFactor e0 spacing0) (\<lambda>(newExtent0, newSpacing0).
            bind_fault (scaleAxis oversamplingFactor e1 spacing1) (\<lambda>(newExtent1, newSpacing1).
            bind_fault (scaleAxis oversamplingFactor e2 spacing2) (\<lambda>(newExtent2, newSpacing2).
            (let resized = grid\<lparr>Extent := (newExtent0, newExtent1, newExtent2),
                                 Spacing := (newSpacing0, newSpacing1, newSpacing2)\<rparr>;
                 newOrigin_Image =
                   (d_mul (Finite 0.5) (d_sub (Finite 1) (d_div spacing0 newSpacing0)),
                    d_mul (Finite 0.5) (d_sub (Finite 1) (d_div spacing1 newSpacing1)),
                    d_mul (Finite 0.5) (d_sub (Finite 1) (d_div spacing2 newSpacing2)));
                 newOrigin_World = imageToWorld resized newOrigin_Image
             in Inr (Some (resized\<lparr>Origin := newOrigin_World\<rparr>), []))))))
          else Inr (Some grid, []))"

text \<open>
  The scaling of one axis as the specification words it, between the old and the new
  extent and spacing of the axis, and for the three axes of two images: the new minimum
  is the ceiling of factor times old minimum, the new dimension the floor of factor
  times old dimension, the new spacing old spacing times old dimension divided by new
  dimension, the products and the quotient being those of doubles.
\<close>

definition spec_axis_scaled ::
  "real \<Rightarrow> int \<times> int \<Rightarrow> double \<Rightarrow> int \<times> int \<Rightarrow> double \<Rightarrow> bool" where
  "spec_axis_scaled factor oldExtent oldSpacing newExtent newSpacing =
     (let oldDimension = snd oldExtent - fst oldExtent + 1;
          newDimension = snd newExtent - fst newExtent + 1
      in integer_value (d_ceil (d_mul (Finite factor) (double_of_int (fst oldExtent))))
           = Some (fst newExtent)
         \<and> integer_value (d_floor (d_mul (Finite factor) (double_of_int oldDimension)))
           = Some (snd newExtent - fst newExtent + 1)
         \<and> newSpacing
           = d_div (d_mul oldSpacing (double_of_int oldDimension)) (double_of_int newDimension))"

definition spec_scaled ::
  "real \<Rightarrow> double vtkOrientedImageData \<Rightarrow> double vtkOrientedImageData \<Rightarrow> bool" where
  "spec_scaled factor old new =
     (case (Extent old, Spacing old, Extent new, Spacing new) of
        ((e0, e1, e2), (s0, s1, s2), (n0, n1, n2), (t0, t1, t2)) \<Rightarrow>
          spec_axis_scaled factor e0 s0 n0 t0
          \<and> spec_axis_scaled factor e1 s1 n1 t1
          \<and> spec_axis_scaled factor e2 s2 n2 t2)"

text \<open>
  An axis on which the int arithmetic of ApplyOversamplingOnImageGeometry stays within
  the range of int, for a factor between 0.01 and 100: both ends of the extent within
  a million voxels of zero.
\<close>

definition axis_in_range :: "int \<times> int \<Rightarrow> bool" where
  "axis_in_range extent =
     (- 1000000 \<le> fst extent \<and> fst extent \<le> 1000000
      \<and> - 1000000 \<le> snd extent \<and> snd extent \<le> 1000000)"

definition image_in_range :: "double vtkOrientedImageData \<Rightarrow> bool" where
  "image_in_range grid =
     (case Extent grid of
        (e0, e1, e2) \<Rightarrow> axis_in_range e0 \<and> axis_in_range e1 \<and> axis_in_range e2)"

section \<open>Properties\<close>

subsection \<open>The second loop of ClipMembershipFunction as a map\<close>

lemma moveNodesDown_fold:
  "n \<le> length f \<Longrightarrow>
   fold (\<lambda>nodeIndex g. g[nodeIndex := h (g ! nodeIndex)]) [0 ..< n] f
     = map h (take n f) @ drop n f"
proof (induction n)
  case 0
  then show ?case by simp
next
  case (Suc n)
  then have n: "n < length f" by simp
  have "(map h (take n f) @ drop n f)[n := h ((map h (take n f) @ drop n f) ! n)]
          = map h (take (Suc n) f) @ drop (Suc n) f"
    using n
    by (simp add: take_Suc_conv_app_nth list_update_append nth_append
        Cons_nth_drop_Suc [symmetric] upd_conv_take_nth_drop)
  with Suc show ?case by simp
qed

lemma moveNodesDown_map: "moveNodesDown clipValue f = map (moveNodeDown clipValue) f"
  by (simp add: moveNodesDown_def moveNodesDown_fold)

subsection \<open>Values and order of the nodes after clipping\<close>

lemma fst_moveNodeDown: "fst (moveNodeDown clipValue n) = fst n"
  by (simp add: moveNodeDown_def)

lemma snd_moveNodeDown: "snd (moveNodeDown clipValue n) \<le> clipValue"
  by (simp add: moveNodeDown_def)

lemma map_fst_moveNodesDown: "map fst (moveNodesDown clipValue f) = map fst f"
  by (simp add: moveNodesDown_map fst_moveNodeDown)

lemma moveNodesDown_below:
  "\<forall>n \<in> set f. snd n \<le> clipValue \<Longrightarrow> moveNodesDown clipValue f = f"
  unfolding moveNodesDown_map by (rule map_idI) (auto simp: moveNodeDown_def)

lemma newNodeParameterValues_below:
  "\<forall>n \<in> set f. snd n \<le> clipValue \<Longrightarrow> newNodeParameterValues clipValue f = []"
  by (induction clipValue f rule: newNodeParameterValues.induct) auto

lemma set_RemovePoint: "set (RemovePoint x f) \<subseteq> set f"
  by (induction f) auto

lemma set_AddPoint: "set (AddPoint x y f) \<subseteq> insert (x, y) (set f)"
  using set_RemovePoint [of x f] by (auto simp: AddPoint_def)

lemma addNewNodes_below:
  "\<forall>n \<in> set f. snd n \<le> clipValue \<Longrightarrow>
   \<forall>n \<in> set (addNewNodes clipValue points f). snd n \<le> clipValue"
  unfolding addNewNodes_def
proof (induction points arbitrary: f)
  case Nil
  then show ?case by simp
next
  case (Cons p points)
  have "\<forall>n \<in> set (AddPoint p clipValue f). snd n \<le> clipValue"
    using Cons.prems set_AddPoint [of p clipValue f] by auto
  from Cons.IH [OF this] show ?case by simp
qed

lemma ClipMembershipFunction_below:
  assumes "clipValue < 1"
  shows "\<forall>n \<in> set (ClipMembershipFunction f clipValue). snd n \<le> clipValue"
proof -
  have "\<forall>n \<in> set (moveNodesDown clipValue f). snd n \<le> clipValue"
    by (simp add: moveNodesDown_map snd_moveNodeDown)
  from addNewNodes_below [OF this] assms show ?thesis
    by (simp add: ClipMembershipFunction_def)
qed

lemma ClipMembershipFunction_unchanged:
  assumes "\<forall>n \<in> set f. snd n \<le> clipValue"
  shows "ClipMembershipFunction f clipValue = f"
  using assms
  by (simp add: ClipMembershipFunction_def newNodeParameterValues_below moveNodesDown_below
      addNewNodes_def)

lemma distinct_map_insort_key:
  "distinct (map k (insort_key k a xs)) = (k a \<notin> k ` set xs \<and> distinct (map k xs))"
  by (induction xs) (auto simp: set_insort_key)

lemma distinct_map_sort_key: "distinct (map k (sort_key k xs)) = distinct (map k xs)"
  by (induction xs) (auto simp: distinct_map_insort_key)

lemma RemovePoint_distinct:
  "distinct (map fst f) \<Longrightarrow> distinct (map fst (RemovePoint x f)) \<and> x \<notin> fst ` set (RemovePoint x f)"
  using set_RemovePoint
  by (induction f) (auto, force+)

lemma AddPoint_strictly_increasing:
  "strictly_increasing_x f \<Longrightarrow> strictly_increasing_x (AddPoint x y f)"
  using RemovePoint_distinct [of f x]
  by (simp add: strictly_increasing_x_def strict_sorted_iff AddPoint_def distinct_map_sort_key)

lemma addNewNodes_strictly_increasing:
  "strictly_increasing_x f \<Longrightarrow> strictly_increasing_x (addNewNodes clipValue points f)"
  unfolding addNewNodes_def
  by (induction points arbitrary: f) (simp_all add: AddPoint_strictly_increasing)

lemma ClipMembershipFunction_strictly_increasing:
  "strictly_increasing_x f \<Longrightarrow> strictly_increasing_x (ClipMembershipFunction f clipValue)"
proof -
  assume f: "strictly_increasing_x f"
  then have "strictly_increasing_x (moveNodesDown clipValue f)"
    by (simp add: strictly_increasing_x_def map_fst_moveNodesDown)
  with f show ?thesis
    by (simp add: ClipMembershipFunction_def addNewNodes_strictly_increasing)
qed

subsection \<open>The canonical functions as node lists\<close>

lemma oversamplingLow_nodes: "oversamplingLow = [(- 1.25, 1), (- 0.75, 1), (0.25, 0)]"
  by (simp add: oversamplingLow_def AddPoint_def)

lemma oversamplingNormal_nodes: "oversamplingNormal = [(- 0.75, 0), (0.25, 1), (0.75, 0)]"
  by (simp add: oversamplingNormal_def AddPoint_def)

lemma oversamplingHigh_nodes:
  "oversamplingHigh = [(0.25, 0), (0.75, 1), (1.25, 1), (1.75, 0)]"
  by (simp add: oversamplingHigh_def AddPoint_def)

lemma oversamplingVeryHigh_nodes: "oversamplingVeryHigh = [(1.25, 0), (1.75, 1), (2.25, 1)]"
  by (simp add: oversamplingVeryHigh_def AddPoint_def)

lemma canonical_outputs:
  "set (map snd spec_rules)
     = {oversamplingVeryHigh, oversamplingHigh, oversamplingNormal, oversamplingLow}"
  by (auto simp: spec_rules_def)

lemma canonical_strictly_increasing:
  "strictly_increasing_x oversamplingVeryHigh" "strictly_increasing_x oversamplingHigh"
  "strictly_increasing_x oversamplingNormal" "strictly_increasing_x oversamplingLow"
  by (simp_all add: strictly_increasing_x_def oversamplingVeryHigh_nodes
      oversamplingHigh_nodes oversamplingNormal_nodes oversamplingLow_nodes)

lemma canonical_at_most_one:
  "\<forall>n \<in> set oversamplingVeryHigh. snd n \<le> 1" "\<forall>n \<in> set oversamplingHigh. snd n \<le> 1"
  "\<forall>n \<in> set oversamplingNormal. snd n \<le> 1" "\<forall>n \<in> set oversamplingLow. snd n \<le> 1"
  by (simp_all add: oversamplingVeryHigh_nodes oversamplingHigh_nodes
      oversamplingNormal_nodes oversamplingLow_nodes)

subsection \<open>The consequents and the rule table\<close>

lemma consequents_spec:
  "consequents relativeStructureSize complexityMeasure
     = spec_clipped_outputs relativeStructureSize complexityMeasure"
  by (simp add: consequents_def spec_clipped_outputs_def spec_rules_def Let_def)

subsection \<open>Rounding of doubles\<close>

lemma binade_code [code]:
  "binade x =
     (if x = 0 then 0
      else if \<bar>x\<bar> \<ge> 2 then binade (x / 2) + 1
      else if \<bar>x\<bar> < 1 then binade (2 * x) - 1
      else 0)"
proof -
  have up: "\<lfloor>log 2 \<bar>x\<bar>\<rfloor> = \<lfloor>log 2 \<bar>x / 2\<bar>\<rfloor> + 1" if "x \<noteq> 0"
  proof -
    have "log 2 \<bar>x / 2\<bar> = log 2 \<bar>x\<bar> - 1"
      using that by (simp add: abs_divide log_divide)
    then show ?thesis by simp
  qed
  have down: "\<lfloor>log 2 \<bar>x\<bar>\<rfloor> = \<lfloor>log 2 \<bar>2 * x\<bar>\<rfloor> - 1" if "x \<noteq> 0"
  proof -
    have "log 2 \<bar>2 * x\<bar> = log 2 \<bar>x\<bar> + 1"
      using that by (simp add: abs_mult log_mult)
    then show ?thesis by simp
  qed
  have mid: "\<lfloor>log 2 \<bar>x\<bar>\<rfloor> = 0" if "1 \<le> \<bar>x\<bar>" "\<bar>x\<bar> < 2"
  proof -
    have "0 \<le> log 2 \<bar>x\<bar>" using that by simp
    moreover have "log 2 \<bar>x\<bar> < 1" using that by (simp add: log_less_iff)
    ultimately show ?thesis by (simp add: floor_eq_iff)
  qed
  show ?thesis
    using up down mid by (auto simp: binade_def)
qed


lemma quantum_positive: "0 < quantum x"
  by (simp add: quantum_def)

lemma binade_le: "x \<noteq> 0 \<Longrightarrow> 2 powi binade x \<le> \<bar>x\<bar>"
proof -
  assume x: "x \<noteq> 0"
  have "2 powr real_of_int \<lfloor>log 2 \<bar>x\<bar>\<rfloor> \<le> 2 powr log 2 \<bar>x\<bar>"
    by (intro powr_mono) simp_all
  also have "\<dots> = \<bar>x\<bar>" using x by simp
  finally show ?thesis using x by (simp add: binade_def powr_real_of_int')
qed

lemma quantum_le: "quantum x \<le> \<bar>x\<bar> + 1"
proof (cases "x = 0")
  case True
  have "(2 :: real) powi (- 52) \<le> 2 powi 0" by (intro power_int_increasing) simp_all
  with True show ?thesis by (simp add: quantum_def binade_def)
next
  case False
  show ?thesis
  proof (cases "- 1022 \<le> binade x")
    case True
    have "(2 :: real) powi (binade x - 52) \<le> 2 powi binade x"
      by (intro power_int_increasing) simp_all
    with binade_le [OF False] True show ?thesis by (simp add: quantum_def max_def)
  next
    case False
    have "(2 :: real) powi (- 1074) \<le> 2 powi 0" by (intro power_int_increasing) simp_all
    with False show ?thesis by (simp add: quantum_def max_def)
  qed
qed

lemma round_even_near: "\<bar>real_of_int (round_even y) - y\<bar> \<le> 1 / 2"
  unfolding round_even_def Let_def by (auto simp: abs_le_iff)

lemma round_double_bounded:
  assumes "\<bar>x\<bar> \<le> 2 ^ 62"
  shows "\<exists>r. \<bar>r\<bar> \<le> 2 * \<bar>x\<bar> + 1
    \<and> (round_double x = Finite r \<or> round_double x = NegZero \<and> r = 0)"
proof -
  define q where "q = quantum x"
  define r where "r = real_of_int (round_even (x / q)) * q"
  have q: "0 < q" "q \<le> \<bar>x\<bar> + 1"
    unfolding q_def by (rule quantum_positive, rule quantum_le)
  have "r - x = (real_of_int (round_even (x / q)) - x / q) * q"
    using q(1) by (simp add: r_def left_diff_distrib)
  then have "\<bar>r - x\<bar> = \<bar>real_of_int (round_even (x / q)) - x / q\<bar> * q"
    using q(1) by (simp add: abs_mult)
  also have "\<dots> \<le> 1 / 2 * q"
    using q(1) round_even_near [of "x / q"] by (intro mult_right_mono) simp_all
  finally have near: "\<bar>r - x\<bar> \<le> (\<bar>x\<bar> + 1) / 2" using q(2) by simp
  then have bound: "\<bar>r\<bar> \<le> 2 * \<bar>x\<bar> + 1"
    by (auto simp: abs_if split: if_splits)
  with assms have "\<bar>r\<bar> \<le> 2 * 2 ^ 62 + 1" by simp
  also have "\<dots> < (2 :: real) ^ 1024" by simp
  finally have small: "\<not> \<bar>r\<bar> \<ge> 2 ^ 1024" by simp
  have "round_double x = Finite r \<or> round_double x = NegZero \<and> r = 0"
    using small
    by (simp add: round_double_def q_def [symmetric] r_def [symmetric] Let_def
        signed_zero_def)
  with bound show ?thesis by blast
qed

lemma round_even_int: "round_even (real_of_int n) = n"
  by (simp add: round_even_def)

lemma round_double_dyadic:
  assumes m: "m \<noteq> 0" "\<bar>m\<bar> < 2 ^ 53" and k: "- 1074 \<le> k" "k \<le> 970"
  shows "round_double (real_of_int m * 2 powi k) = Finite (real_of_int m * 2 powi k)"
proof -
  define x where "x = real_of_int m * 2 powi k"
  define j where "j = max (binade x) (- 1022) - 52"
  have x: "x \<noteq> 0" using m(1) by (simp add: x_def)
  have absx: "\<bar>x\<bar> = real_of_int \<bar>m\<bar> * 2 powi k"
    by (simp add: x_def abs_mult)
  have "real_of_int \<bar>m\<bar> < 2 ^ 53" using m(2) by (metis of_int_less_numeral_power_cancel_iff)
  then have "\<bar>x\<bar> < 2 ^ 53 * 2 powi k"
    unfolding absx by (intro mult_strict_right_mono) simp_all
  also have "\<dots> = 2 powi (53 + k)" by (simp add: power_int_add)
  also have "\<dots> = 2 powr real_of_int (53 + k)"
    using powr_real_of_int' [of 2 "53 + k"] by simp
  finally have "log 2 \<bar>x\<bar> < real_of_int (53 + k)"
    using x by (simp add: log_less_iff)
  then have "binade x < 53 + k" using x by (simp add: binade_def floor_less_iff)
  with k(1) have j: "j \<le> k" by (simp add: j_def)
  have q: "quantum x = 2 powi j" by (simp add: quantum_def j_def)
  have "x / quantum x = x / 2 powi j" by (simp only: q)
  also have "\<dots> = real_of_int m * 2 powi (k - j)"
    by (simp add: x_def power_int_diff)
  also have "\<dots> = real_of_int (m * 2 ^ nat (k - j))"
    using j by (simp add: power_int_def)
  finally have "real_of_int (round_even (x / quantum x)) * quantum x
      = real_of_int (m * 2 ^ nat (k - j)) * 2 powi j"
    by (simp only: round_even_int q)
  also have "\<dots> = real_of_int m * (2 powi (k - j) * 2 powi j)"
    using j by (simp add: power_int_def)
  also have "\<dots> = x" by (simp add: x_def power_int_add [symmetric])
  finally have r: "real_of_int (round_even (x / quantum x)) * quantum x = x" .
  have "\<bar>x\<bar> < 2 ^ 53 * 2 powi k" by fact
  also have "\<dots> \<le> 2 ^ 53 * 2 powi 970"
    using k(2) by (intro mult_left_mono power_int_increasing) simp_all
  also have "\<dots> = 2 ^ 1023" by (simp add: power_int_def power_add [symmetric])
  finally have "\<not> \<bar>x\<bar> \<ge> 2 ^ 1024" by simp
  with x r show ?thesis by (simp add: round_double_def Let_def x_def [symmetric])
qed

lemma round_double_examples:
  "round_double 20 = Finite 20" "round_double 10 = Finite 10" "round_double 2 = Finite 2"
  "round_double 1 = Finite 1"
  "round_double (1 / 2) = Finite (1 / 2)" "round_double (- 1) = Finite (- 1)"
  "round_double (- (1 / 2)) = Finite (- (1 / 2))"
  using round_double_dyadic [of 20 0] round_double_dyadic [of 10 0] round_double_dyadic [of 2 0]
    round_double_dyadic [of 1 0]
    round_double_dyadic [of 1 "- 1"] round_double_dyadic [of "- 1" 0]
    round_double_dyadic [of "- 1" "- 1"]
  by simp_all

subsection \<open>The scaling of one axis\<close>

lemma bind_fault_Inr:
  "bind_fault r f = Inr y \<Longrightarrow> \<exists>v. r = Inr v \<and> f v = Inr y"
  by (cases r) (simp_all add: bind_fault_def)

lemma int_result_Inr: "int_result i = Inr j \<Longrightarrow> j = i"
  by (simp add: int_result_def split: if_splits)

lemma GetDimension_Inr: "GetDimension e = Inr d \<Longrightarrow> d = snd e - fst e + 1"
  by (auto simp: GetDimension_def int_add_def int_sub_def
      dest!: bind_fault_Inr int_result_Inr)

lemma int_result_in_range:
  "- 2000000000 \<le> i \<Longrightarrow> i \<le> 2000000000 \<Longrightarrow> int_result i = Inr i"
  by (simp add: int_result_def INT_MIN_def INT_MAX_def)

lemma static_cast_int_ceil:
  "static_cast_int (d_ceil d) = Inr c \<Longrightarrow> integer_value (d_ceil d) = Some c"
  by (cases d) (auto dest!: int_result_Inr split: if_splits)

lemma static_cast_int_floor:
  "static_cast_int (d_floor d) = Inr c \<Longrightarrow> integer_value (d_floor d) = Some c"
  by (cases d) (auto dest!: int_result_Inr split: if_splits)

lemma scaleAxis_spec:
  assumes "scaleAxis factor extent spacing = Inr (newExtent, newSpacing)"
  shows "spec_axis_scaled factor extent spacing newExtent newSpacing"
  using assms unfolding scaleAxis_def
  by (auto simp: spec_axis_scaled_def int_add_def int_sub_def
      dest!: bind_fault_Inr int_result_Inr GetDimension_Inr
        static_cast_int_ceil static_cast_int_floor)

lemma cast_of_bounded:
  assumes "d = Finite r \<or> d = NegZero \<and> r = 0" and "\<bar>r\<bar> \<le> real_of_int m"
    and "m \<le> 1999999999"
  shows "\<exists>c. static_cast_int (d_ceil d) = Inr c \<and> \<bar>c\<bar> \<le> m + 1"
    and "\<exists>c. static_cast_int (d_floor d) = Inr c \<and> \<bar>c\<bar> \<le> m + 1"
proof -
  from assms(2) have c: "\<bar>\<lceil>r\<rceil>\<bar> \<le> m + 1" and f: "\<bar>\<lfloor>r\<rfloor>\<bar> \<le> m + 1"
    by (auto simp: abs_le_iff) linarith+
  from c assms(3) have ic: "int_result \<lceil>r\<rceil> = Inr \<lceil>r\<rceil>"
    by (intro int_result_in_range) linarith+
  from f assms(3) have "int_result \<lfloor>r\<rfloor> = Inr \<lfloor>r\<rfloor>"
    by (intro int_result_in_range) linarith+
  with assms(1) f show "\<exists>c. static_cast_int (d_floor d) = Inr c \<and> \<bar>c\<bar> \<le> m + 1"
    by auto
  from assms(3) c have "0 \<le> m + 1" by linarith
  with assms(1) c ic show "\<exists>c. static_cast_int (d_ceil d) = Inr c \<and> \<bar>c\<bar> \<le> m + 1"
    by auto
qed

lemma product_bounded:
  assumes "0 < factor" and "\<bar>factor * real_of_int i\<bar> \<le> real_of_int m" and "0 \<le> m"
    and "m \<le> 500000000"
  shows "\<exists>r. \<bar>r\<bar> \<le> real_of_int (2 * m + 1)
    \<and> (d_mul (Finite factor) (double_of_int i) = Finite r
       \<or> d_mul (Finite factor) (double_of_int i) = NegZero \<and> r = 0)"
proof (cases "i = 0")
  case True
  with assms(1,3) show ?thesis
    by (simp add: d_mul_def double_of_int_def signed_zero_def)
next
  case False
  from assms(2,4) have "\<bar>factor * real_of_int i\<bar> \<le> 2 ^ 62" by simp
  from round_double_bounded [OF this] obtain r where
    r: "\<bar>r\<bar> \<le> 2 * \<bar>factor * real_of_int i\<bar> + 1"
      "round_double (factor * real_of_int i) = Finite r
       \<or> round_double (factor * real_of_int i) = NegZero \<and> r = 0"
    by blast
  from r(1) assms(2) have "\<bar>r\<bar> \<le> real_of_int (2 * m + 1)" by simp
  moreover from False assms(1)
  have "d_mul (Finite factor) (double_of_int i) = round_double (factor * real_of_int i)"
    by (simp add: d_mul_def double_of_int_def)
  ultimately show ?thesis using r(2) by auto
qed

lemma scaleAxis_in_range:
  assumes f: "0.01 \<le> factor" "factor \<le> 100"
    and r: "axis_in_range extent"
  shows "\<exists>newExtent newSpacing. scaleAxis factor extent spacing = Inr (newExtent, newSpacing)"
proof -
  obtain lo hi where e: "extent = (lo, hi)" by (cases extent)
  define d where "d = hi - lo + 1"
  from r e have lo: "- 1000000 \<le> lo" "lo \<le> 1000000" and hi: "- 1000000 \<le> hi" "hi \<le> 1000000"
    by (simp_all add: axis_in_range_def)
  then have d: "\<bar>d\<bar> \<le> 2000001" by (simp add: d_def)
  have dim: "GetDimension (lo, hi) = Inr d"
    using lo hi by (simp add: GetDimension_def int_sub_def int_add_def bind_fault_def
        int_result_in_range d_def)
  from f have pos: "0 < factor" by simp
  have "\<bar>factor * real_of_int lo\<bar> \<le> 100 * 1000000"
    unfolding abs_mult using f lo by (intro mult_mono) simp_all
  then have "\<bar>factor * real_of_int lo\<bar> \<le> real_of_int 100000000" by simp
  from product_bounded [OF pos this] obtain p where
    p: "\<bar>p\<bar> \<le> real_of_int (2 * 100000000 + 1)"
      "d_mul (Finite factor) (double_of_int lo) = Finite p
       \<or> d_mul (Finite factor) (double_of_int lo) = NegZero \<and> p = 0"
    by auto
  from cast_of_bounded(1) [OF p(2) p(1)] obtain m where
    m: "static_cast_int (d_ceil (d_mul (Finite factor) (double_of_int lo))) = Inr m"
      "\<bar>m\<bar> \<le> 200000002"
    by auto
  have "\<bar>factor * real_of_int d\<bar> \<le> 100 * 2000001"
    unfolding abs_mult using f d by (intro mult_mono) simp_all
  then have "\<bar>factor * real_of_int d\<bar> \<le> real_of_int 200000100" by simp
  from product_bounded [OF pos this] obtain q where
    q: "\<bar>q\<bar> \<le> real_of_int (2 * 200000100 + 1)"
      "d_mul (Finite factor) (double_of_int d) = Finite q
       \<or> d_mul (Finite factor) (double_of_int d) = NegZero \<and> q = 0"
    by auto
  from cast_of_bounded(2) [OF q(2) q(1)] obtain k where
    k: "static_cast_int (d_floor (d_mul (Finite factor) (double_of_int d))) = Inr k"
      "\<bar>k\<bar> \<le> 400000202"
    by auto
  have newdim: "GetDimension (m, m + k - 1) = Inr k"
    using k(2) by (simp add: GetDimension_def int_sub_def int_add_def bind_fault_def
        int_result_in_range)
  have "scaleAxis factor extent spacing
          = Inr ((m, m + k - 1), d_div (d_mul spacing (double_of_int d)) (double_of_int k))"
    using m k
    by (simp add: scaleAxis_def e dim bind_fault_def int_add_def int_sub_def
        int_result_in_range newdim)
  then show ?thesis by blast
qed

lemma ApplyOversamplingOnImageGeometry_in_range:
  assumes f: "0.01 \<le> factor" "factor \<le> 100" "factor \<noteq> 1"
    and r: "image_in_range grid"
  shows "\<exists>scaled.
    ApplyOversamplingOnImageGeometry imageToWorld (Some grid) factor = Inr (Some scaled, [])"
proof -
  obtain e0 e1 e2 where e: "Extent grid = (e0, e1, e2)" by (cases "Extent grid")
  obtain s0 s1 s2 where s: "Spacing grid = (s0, s1, s2)" by (cases "Spacing grid")
  from r e have r: "axis_in_range e0" "axis_in_range e1" "axis_in_range e2"
    by (simp_all add: image_in_range_def)
  from scaleAxis_in_range [OF f(1,2) r(1), of s0] scaleAxis_in_range [OF f(1,2) r(2), of s1]
    scaleAxis_in_range [OF f(1,2) r(3), of s2]
  obtain n0 t0 n1 t1 n2 t2 where
    "scaleAxis factor e0 s0 = Inr (n0, t0)"
    "scaleAxis factor e1 s1 = Inr (n1, t1)"
    "scaleAxis factor e2 s2 = Inr (n2, t2)"
    by blast
  with f show ?thesis
    by (simp add: ApplyOversamplingOnImageGeometry_def e s bind_fault_def Let_def)
qed

lemma scaleAxis_example: "scaleAxis 2 (0, 9) (Finite 1) = Inr ((0, 19), Finite (1 / 2))"
  by (simp add: scaleAxis_def GetDimension_def int_add_def int_sub_def int_result_def
      INT_MIN_def INT_MAX_def bind_fault_def d_mul_def d_div_def double_of_int_def
      signed_zero_def round_double_examples)

lemma newOrigin_example:
  "d_mul (Finite (1 / 2)) (d_sub (Finite 1) (d_div (Finite 1) (Finite (1 / 2))))
     = Finite (- (1 / 2))"
  by (simp add: d_mul_def d_div_def d_sub_def round_double_examples)

text \<open>
  When the factor leaves no voxel, the function still returns: the new extent is empty
  and the new spacing an infinity.
\<close>

lemma scaleAxis_single_slice:
  "scaleAxis (1 / 2) (0, 0) (Finite 1) = Inr ((0, - 1), PlusInfinity)"
  by (simp add: scaleAxis_def GetDimension_def int_add_def int_sub_def int_result_def
      INT_MIN_def INT_MAX_def bind_fault_def d_mul_def d_div_def double_of_int_def
      signed_zero_def signed_infinity_def round_double_examples)

text \<open>
  The rounding of the product decides the extent: the double nearest to 0.3 is below
  0.3, its exact product with the dimension 10 is below 3, and the double product is 3.
\<close>

lemma scaleAxis_rounded_product:
  "scaleAxis (5404319552844595 / 18014398509481984) (0, 9) (Finite 1)
     = Inr ((0, 2), Finite (7505999378950827 / 2251799813685248))"
proof -
  have product: "round_double (27021597764222975 / 9007199254740992) = Finite 3"
    by (simp add: round_double_def quantum_def binade_code round_even_def Let_def)
  have quotient: "round_double (10 / 3) = Finite (7505999378950827 / 2251799813685248)"
    by (simp add: round_double_def quantum_def binade_code round_even_def Let_def)
  show ?thesis
    by (simp add: scaleAxis_def GetDimension_def int_add_def int_sub_def int_result_def
        INT_MIN_def INT_MAX_def bind_fault_def d_mul_def d_div_def double_of_int_def
        signed_zero_def round_double_examples product quotient)
qed

subsection \<open>Areas of the clipped consequents\<close>

lemma trapezoid_area:
  "fst (trapezoid a b) = (fst b - fst a) * (snd a + snd b) / 2"
  by (simp add: trapezoid_def Let_def min_def field_simps split: prod.splits)

lemma sections_positive: "\<forall>p \<in> set (sections f). 0 < fst p"
  by (induction f rule: sections.induct) auto

lemma sections_nonempty:
  assumes "strictly_increasing_x f" and "\<forall>n \<in> set f. 0 \<le> snd n"
    and "\<exists>n \<in> set f. 0 < snd n" and "2 \<le> length f"
  shows "sections f \<noteq> []"
  using assms
proof (induction f rule: sections.induct)
  case (1 a b ns)
  show ?case
  proof (cases "0 < fst (trapezoid a b)")
    case True
    then show ?thesis by simp
  next
    case False
    from "1.prems"(1) have w: "fst a < fst b" and inc: "strictly_increasing_x (b # ns)"
      by (simp_all add: strictly_increasing_x_def)
    from "1.prems"(2) have nn: "0 \<le> snd a" "0 \<le> snd b" by simp_all
    from False w have "snd a + snd b \<le> 0"
      by (simp add: trapezoid_area not_less mult_le_0_iff)
    with nn have z: "snd a = 0" "snd b = 0" by simp_all
    with "1.prems"(3) obtain n where n: "n \<in> set ns" "0 < snd n" by auto
    then have "2 \<le> length (b # ns)" by (cases ns) auto
    moreover from n have "\<exists>n \<in> set (b # ns). 0 < snd n" by auto
    moreover from "1.prems"(2) have "\<forall>n \<in> set (b # ns). 0 \<le> snd n" by simp
    ultimately have "sections (b # ns) \<noteq> []" using inc "1.IH" by blast
    then show ?thesis by simp
  qed
qed simp_all

lemma length_RemovePoint: "length f \<le> Suc (length (RemovePoint x f))"
  by (induction f) auto

lemma length_AddPoint: "length f \<le> length (AddPoint x y f)"
  using length_RemovePoint [of f x] by (simp add: AddPoint_def)

lemma AddPoint_member: "(x, y) \<in> set (AddPoint x y f)"
  by (simp add: AddPoint_def)

lemma length_addNewNodes: "length f \<le> length (addNewNodes clipValue points f)"
  unfolding addNewNodes_def
proof (induction points arbitrary: f)
  case Nil
  then show ?case by simp
next
  case (Cons p points)
  from length_AddPoint [of f p clipValue] Cons.IH [of "AddPoint p clipValue f"]
  show ?case by simp
qed

lemma length_ClipMembershipFunction: "length f \<le> length (ClipMembershipFunction f clipValue)"
  using length_addNewNodes [of "moveNodesDown clipValue f" clipValue]
  by (simp add: ClipMembershipFunction_def moveNodesDown_map)

lemma addNewNodes_nonnegative:
  "0 \<le> clipValue \<Longrightarrow> \<forall>n \<in> set f. 0 \<le> snd n \<Longrightarrow>
   \<forall>n \<in> set (addNewNodes clipValue points f). 0 \<le> snd n"
  unfolding addNewNodes_def
proof (induction points arbitrary: f)
  case Nil
  then show ?case by simp
next
  case (Cons p points)
  have "\<forall>n \<in> set (AddPoint p clipValue f). 0 \<le> snd n"
    using Cons.prems set_AddPoint [of p clipValue f] by auto
  from Cons.IH [OF Cons.prems(1) this] show ?case by simp
qed

lemma addNewNodes_positive:
  "0 < clipValue \<Longrightarrow> \<exists>n \<in> set f. 0 < snd n \<Longrightarrow>
   \<exists>n \<in> set (addNewNodes clipValue points f). 0 < snd n"
  unfolding addNewNodes_def
proof (induction points arbitrary: f)
  case Nil
  then show ?case by simp
next
  case (Cons p points)
  have "\<exists>n \<in> set (AddPoint p clipValue f). 0 < snd n"
    using Cons.prems(1) AddPoint_member [of p clipValue f] by force
  from Cons.IH [OF Cons.prems(1) this] show ?case by simp
qed

lemma ClipMembershipFunction_nonnegative:
  assumes "0 \<le> clipValue" and "\<forall>n \<in> set f. 0 \<le> snd n"
  shows "\<forall>n \<in> set (ClipMembershipFunction f clipValue). 0 \<le> snd n"
proof -
  from assms have "\<forall>n \<in> set (moveNodesDown clipValue f). 0 \<le> snd n"
    by (auto simp: moveNodesDown_map moveNodeDown_def)
  from addNewNodes_nonnegative [OF assms(1) this] assms(2) show ?thesis
    by (simp add: ClipMembershipFunction_def)
qed

lemma ClipMembershipFunction_positive:
  assumes "0 < clipValue" and "\<exists>n \<in> set f. 0 < snd n"
  shows "\<exists>n \<in> set (ClipMembershipFunction f clipValue). 0 < snd n"
proof -
  from assms obtain n where "n \<in> set f" "0 < snd n" by blast
  with assms(1) have "moveNodeDown clipValue n \<in> set (moveNodesDown clipValue f)"
    "0 < snd (moveNodeDown clipValue n)"
    by (auto simp: moveNodesDown_map moveNodeDown_def)
  then have "\<exists>n \<in> set (moveNodesDown clipValue f). 0 < snd n" by blast
  from addNewNodes_positive [OF assms(1) this] assms(2) show ?thesis
    by (simp add: ClipMembershipFunction_def)
qed

lemma fired_rule_has_area:
  assumes "strictly_increasing_x f" and "\<forall>n \<in> set f. 0 \<le> snd n"
    and "\<exists>n \<in> set f. 0 < snd n" and "2 \<le> length f" and "0 < clipValue"
  shows "sections (ClipMembershipFunction f clipValue) \<noteq> []"
proof (rule sections_nonempty)
  show "strictly_increasing_x (ClipMembershipFunction f clipValue)"
    using assms(1) by (rule ClipMembershipFunction_strictly_increasing)
  show "\<forall>n \<in> set (ClipMembershipFunction f clipValue). 0 \<le> snd n"
    using assms(2,5) by (intro ClipMembershipFunction_nonnegative) simp_all
  show "\<exists>n \<in> set (ClipMembershipFunction f clipValue). 0 < snd n"
    using assms(5,3) by (rule ClipMembershipFunction_positive)
  show "2 \<le> length (ClipMembershipFunction f clipValue)"
    using assms(4) length_ClipMembershipFunction [of f clipValue] by simp
qed

lemma fold_add:
  "fold (\<lambda>p acc. acc + h p) pairs (a :: real) = a + sum_list (map h pairs)"
  by (induction pairs arbitrary: a) simp_all

lemma denominator_sum: "denominator pairs = sum_list (map fst pairs)"
  by (simp add: denominator_def fold_add)

lemma areaCentroidPairs_positive: "\<forall>p \<in> set (areaCentroidPairs fs). 0 < fst p"
  using sections_positive by (auto simp: areaCentroidPairs_def)

lemma sum_list_positive:
  "\<forall>a \<in> set as. 0 < (a :: real) \<Longrightarrow> as \<noteq> [] \<Longrightarrow> 0 < sum_list as"
  by (induction as) (auto intro: add_pos_nonneg sum_list_nonneg less_imp_le)

lemma denominator_zero_iff:
  "denominator (areaCentroidPairs fs) = 0 \<longleftrightarrow> areaCentroidPairs fs = []"
proof
  assume z: "denominator (areaCentroidPairs fs) = 0"
  show "areaCentroidPairs fs = []"
  proof (rule ccontr)
    assume "areaCentroidPairs fs \<noteq> []"
    with areaCentroidPairs_positive [of fs]
    have "0 < sum_list (map fst (areaCentroidPairs fs))"
      by (intro sum_list_positive) auto
    with z show False by (simp add: denominator_sum)
  qed
next
  assume "areaCentroidPairs fs = []"
  then show "denominator (areaCentroidPairs fs) = 0" by (simp add: denominator_def)
qed

lemma areaCentroidPairs_nonempty:
  "f \<in> set fs \<Longrightarrow> sections f \<noteq> [] \<Longrightarrow> areaCentroidPairs fs \<noteq> []"
  by (auto simp: areaCentroidPairs_def)

subsection \<open>Every input fires a rule\<close>

lemma sizeLarge_nodes: "sizeLarge = [(0.5, 1), (2, 0)]"
  by (simp add: sizeLarge_def AddPoint_def)

lemma sizeMedium_nodes: "sizeMedium = [(0.5, 0), (2, 1), (2.5, 1), (3, 0)]"
  by (simp add: sizeMedium_def AddPoint_def)

lemma sizeSmall_nodes: "sizeSmall = [(2.5, 0), (3, 1), (3.25, 1), (3.75, 0)]"
  by (simp add: sizeSmall_def AddPoint_def)

lemma sizeVerySmall_nodes: "sizeVerySmall = [(3.25, 0), (3.75, 1)]"
  by (simp add: sizeVerySmall_def AddPoint_def)

lemma complexityLow_nodes: "complexityLow = [(0.2, 1), (0.6, 0)]"
  by (simp add: complexityLow_def AddPoint_def)

lemma complexityHigh_nodes: "complexityHigh = [(0.2, 0), (0.6, 1)]"
  by (simp add: complexityHigh_def AddPoint_def)

lemma sizeLarge_positive: "x < 2 \<Longrightarrow> 0 < GetValue sizeLarge x"
  by (simp add: sizeLarge_nodes Let_def field_simps)

lemma sizeVerySmall_positive: "3.25 < x \<Longrightarrow> 0 < GetValue sizeVerySmall x"
  by (simp add: sizeVerySmall_nodes Let_def field_simps)

lemma sizeMedium_positive: "2 \<le> x \<Longrightarrow> x < 3 \<Longrightarrow> 0 < GetValue sizeMedium x"
  by (simp add: sizeMedium_nodes Let_def field_simps)

lemma sizeSmall_positive: "3 \<le> x \<Longrightarrow> x \<le> 3.25 \<Longrightarrow> 0 < GetValue sizeSmall x"
  by (simp add: sizeSmall_nodes Let_def field_simps)

lemma complexityLow_positive: "x < 0.6 \<Longrightarrow> 0 < GetValue complexityLow x"
  by (simp add: complexityLow_nodes Let_def field_simps)

lemma complexityHigh_positive: "0.2 < x \<Longrightarrow> 0 < GetValue complexityHigh x"
  by (simp add: complexityHigh_nodes Let_def field_simps)

lemma canonical_output_shape:
  assumes "output \<in> set (map snd spec_rules)"
  shows "strictly_increasing_x output" "\<forall>n \<in> set output. 0 \<le> snd n"
    "\<exists>n \<in> set output. 0 < snd n" "2 \<le> length output"
proof -
  from assms show "strictly_increasing_x output"
    unfolding canonical_outputs using canonical_strictly_increasing by blast
  from assms show "\<forall>n \<in> set output. 0 \<le> snd n"
    unfolding canonical_outputs
    by (auto simp: oversamplingVeryHigh_nodes oversamplingHigh_nodes oversamplingNormal_nodes
        oversamplingLow_nodes)
  from assms show "\<exists>n \<in> set output. 0 < snd n"
    unfolding canonical_outputs
    by (auto simp: oversamplingVeryHigh_nodes oversamplingHigh_nodes oversamplingNormal_nodes
        oversamplingLow_nodes)
  from assms show "2 \<le> length output"
    unfolding canonical_outputs
    by (auto simp: oversamplingVeryHigh_nodes oversamplingHigh_nodes oversamplingNormal_nodes
        oversamplingLow_nodes)
qed

lemma some_rule_fires:
  "\<exists>rule \<in> set spec_rules. 0 < fst rule sizeValue complexityValue"
proof -
  consider "sizeValue < 2" | "3.25 < sizeValue" | "2 \<le> sizeValue" "sizeValue < 3"
    | "3 \<le> sizeValue" "sizeValue \<le> 3.25"
    by linarith
  then show ?thesis
  proof cases
    case 1
    then show ?thesis by (simp add: spec_rules_def sizeLarge_positive)
  next
    case 2
    then show ?thesis by (simp add: spec_rules_def sizeVerySmall_positive)
  next
    case 3
    then have m: "0 < GetValue sizeMedium sizeValue" by (rule sizeMedium_positive)
    consider "complexityValue < 0.6" | "0.2 < complexityValue" by linarith
    then show ?thesis
    proof cases
      case 1
      with m show ?thesis by (simp add: spec_rules_def complexityLow_positive)
    next
      case 2
      with m show ?thesis by (simp add: spec_rules_def complexityHigh_positive)
    qed
  next
    case 4
    then have m: "0 < GetValue sizeSmall sizeValue" by (rule sizeSmall_positive)
    consider "complexityValue < 0.6" | "0.2 < complexityValue" by linarith
    then show ?thesis
    proof cases
      case 1
      with m show ?thesis by (simp add: spec_rules_def complexityLow_positive)
    next
      case 2
      with m show ?thesis by (simp add: spec_rules_def complexityHigh_positive)
    qed
  qed
qed

lemma consequents_have_area:
  "areaCentroidPairs (consequents sizeValue complexityValue) \<noteq> []"
proof -
  from some_rule_fires [of sizeValue complexityValue] obtain strength out
    where rule: "(strength, out) \<in> set spec_rules"
      and fires: "0 < strength sizeValue complexityValue"
    by force
  from rule have "out \<in> set (map snd spec_rules)" by force
  from canonical_output_shape [OF this] fires
  have "sections (ClipMembershipFunction out (strength sizeValue complexityValue)) \<noteq> []"
    by (rule fired_rule_has_area)
  moreover from rule
  have "ClipMembershipFunction out (strength sizeValue complexityValue)
          \<in> set (consequents sizeValue complexityValue)"
    unfolding consequents_spec spec_clipped_outputs_def by force
  ultimately show ?thesis by (rule areaCentroidPairs_nonempty [rotated])
qed

text \<open>
  So the total area that DetermineOversamplingFactor divides by is positive for every
  pair of arguments.
\<close>

lemma total_area_positive:
  "0 < denominator (areaCentroidPairs (consequents sizeValue complexityValue))"
proof -
  have "areaCentroidPairs (consequents sizeValue complexityValue) \<noteq> []"
    by (rule consequents_have_area)
  with areaCentroidPairs_positive [of "consequents sizeValue complexityValue"]
  show ?thesis
    unfolding denominator_sum by (intro sum_list_positive) auto
qed

subsection \<open>Diagnostics\<close>

lemma diagnostics_differ: "volume_warning \<noteq> size_report"
  by (simp add: volume_warning_def size_report_def)

subsection \<open>Claims\<close>

text \<open>
  C2. For every pair of valid inputs DetermineOversamplingFactor evaluates the six
  rules of the table in their order: rule 1 with the degree of sizeVerySmall, rules 2
  to 5 with the minimum of the degrees of sizeSmall or sizeMedium and of
  complexityHigh or complexityLow, rule 6 with the degree of sizeLarge. Each value
  clips a copy of the output function of its rule (VeryHigh, High, High, Normal,
  Normal, Low), all six consequents whatever the values, and the factor is computed
  from these six.
\<close>

theorem DetermineOversamplingFactor_six_rules:
  assumes "relativeStructureSize \<noteq> - 1" and "complexityMeasure \<noteq> - 1"
  shows "length spec_rules = 6
    \<and> consequents relativeStructureSize complexityMeasure
        = map (\<lambda>(strength, output).
                 ClipMembershipFunction output (strength relativeStructureSize complexityMeasure))
            spec_rules
    \<and> DetermineOversamplingFactor relativeStructureSize complexityMeasure
        = (centreOfGravity (spec_clipped_outputs relativeStructureSize complexityMeasure), [])"
  using assms
  by (simp add: DetermineOversamplingFactor_def consequents_spec)
    (simp add: spec_clipped_outputs_def spec_rules_def)

theorem DetermineOversamplingFactor_six_rules_witness:
  "(4 :: real) \<noteq> - 1 \<and> (1 / 10 :: real) \<noteq> - 1
   \<and> length (consequents 4 (1 / 10)) = 6
   \<and> DetermineOversamplingFactor 4 (1 / 10)
       = (centreOfGravity (spec_clipped_outputs 4 (1 / 10)), [])"
  using DetermineOversamplingFactor_six_rules [of 4 "1 / 10"]
  by simp

text \<open>
  C3. For the size measure 4.0 and the complexity measure 0.1 rule 1 has the strength 1
  and the five other rules the strength 0, the first consequent is oversamplingVeryHigh
  itself, no other consequent contributes a segment, and the factor returned is 4.
\<close>

theorem DetermineOversamplingFactor_very_small:
  "GetValue sizeVerySmall 4 = 1
   \<and> min (GetValue sizeSmall 4) (GetValue complexityHigh 0.1) = 0
   \<and> min (GetValue sizeMedium 4) (GetValue complexityHigh 0.1) = 0
   \<and> min (GetValue sizeSmall 4) (GetValue complexityLow 0.1) = 0
   \<and> min (GetValue sizeMedium 4) (GetValue complexityLow 0.1) = 0
   \<and> GetValue sizeLarge 4 = 0
   \<and> hd (consequents 4 0.1) = oversamplingVeryHigh
   \<and> areaCentroidPairs (tl (consequents 4 0.1)) = []
   \<and> DetermineOversamplingFactor 4 0.1 = (Inr 4, [])"
  by code_simp

text \<open>
  C4. For each output function of the six rules and each strength between 0 and 1,
  after ClipMembershipFunction no node has a value above the strength and the
  x-coordinates of the nodes still increase strictly.
\<close>

theorem ClipMembershipFunction_canonical:
  assumes "output \<in> set (map snd spec_rules)" and "0 \<le> s" and "s \<le> 1"
  shows "(\<forall>n \<in> set (ClipMembershipFunction output s). snd n \<le> s)
    \<and> strictly_increasing_x (ClipMembershipFunction output s)"
proof
  from assms(1) have inc: "strictly_increasing_x output"
    and one: "\<forall>n \<in> set output. snd n \<le> 1"
    unfolding canonical_outputs
    using canonical_strictly_increasing canonical_at_most_one by blast+
  show "\<forall>n \<in> set (ClipMembershipFunction output s). snd n \<le> s"
  proof (cases "s < 1")
    case True
    then show ?thesis by (rule ClipMembershipFunction_below)
  next
    case False
    with assms(3) have "s = 1" by simp
    with one show ?thesis by (simp add: ClipMembershipFunction_def)
  qed
  from inc show "strictly_increasing_x (ClipMembershipFunction output s)"
    by (rule ClipMembershipFunction_strictly_increasing)
qed

theorem ClipMembershipFunction_canonical_witness:
  "oversamplingHigh \<in> set (map snd spec_rules) \<and> (0 :: real) \<le> 1 / 2 \<and> (1 / 2 :: real) \<le> 1
   \<and> ClipMembershipFunction oversamplingHigh (1 / 2)
       = [(1 / 4, 0), (1 / 2, 1 / 2), (3 / 4, 1 / 2), (5 / 4, 1 / 2), (3 / 2, 1 / 2), (7 / 4, 0)]
   \<and> list_all (\<lambda>n. snd n \<le> 1 / 2) (ClipMembershipFunction oversamplingHigh (1 / 2))
   \<and> strictly_increasing_x (ClipMembershipFunction oversamplingHigh (1 / 2))"
proof -
  have member: "oversamplingHigh \<in> set (map snd spec_rules)"
    by (simp add: spec_rules_def)
  have clipped: "ClipMembershipFunction oversamplingHigh (1 / 2)
      = [(1 / 4, 0), (1 / 2, 1 / 2), (3 / 4, 1 / 2), (5 / 4, 1 / 2), (3 / 2, 1 / 2), (7 / 4, 0)]"
    by code_simp
  from ClipMembershipFunction_canonical [OF member, of "1 / 2"] member clipped
  show ?thesis by (simp add: list_all_iff)
qed

text \<open>
  C5. Clipping is idempotent: clipping a function that was clipped with strength \<open>s\<close>
  once more with the same or a higher strength \<open>t\<close> changes nothing, and clipping
  with a strength of at least 1 leaves every function as it is.
\<close>

theorem ClipMembershipFunction_idempotent:
  "(s \<le> t \<longrightarrow> ClipMembershipFunction (ClipMembershipFunction f s) t
                  = ClipMembershipFunction f s)
   \<and> (1 \<le> s \<longrightarrow> ClipMembershipFunction f s = f)"
proof (intro conjI impI)
  assume st: "s \<le> t"
  show "ClipMembershipFunction (ClipMembershipFunction f s) t = ClipMembershipFunction f s"
  proof (cases "t < 1")
    case True
    with st have "s < 1" by simp
    from ClipMembershipFunction_below [OF this, of f] st
    have "\<forall>n \<in> set (ClipMembershipFunction f s). snd n \<le> t" by auto
    then show ?thesis by (rule ClipMembershipFunction_unchanged)
  next
    case False
    then show ?thesis by (simp add: ClipMembershipFunction_def)
  qed
next
  assume "1 \<le> s"
  then show "ClipMembershipFunction f s = f" by (simp add: ClipMembershipFunction_def)
qed

theorem ClipMembershipFunction_idempotent_witness:
  "(1 / 2 :: real) \<le> 3 / 4
   \<and> ClipMembershipFunction (ClipMembershipFunction oversamplingHigh (1 / 2)) (3 / 4)
       = [(1 / 4, 0), (1 / 2, 1 / 2), (3 / 4, 1 / 2), (5 / 4, 1 / 2), (3 / 2, 1 / 2), (7 / 4, 0)]
   \<and> (1 :: real) \<le> 1
   \<and> ClipMembershipFunction oversamplingHigh 1 = oversamplingHigh"
proof -
  have clipped: "ClipMembershipFunction oversamplingHigh (1 / 2)
      = [(1 / 4, 0), (1 / 2, 1 / 2), (3 / 4, 1 / 2), (5 / 4, 1 / 2), (3 / 2, 1 / 2), (7 / 4, 0)]"
    by code_simp
  show ?thesis
    using ClipMembershipFunction_idempotent [of "1 / 2" "3 / 4" oversamplingHigh]
      ClipMembershipFunction_idempotent [of 1 1 oversamplingHigh]
    by (simp add: clipped)
qed

text \<open>
  C6. When ApplyOversamplingOnImageGeometry applies a factor between 0.01 and 100 other
  than 1, then on each of the three axes the new extent minimum is the ceiling of
  factor times the old minimum, the new maximum is the new minimum plus the floor of
  factor times the old dimension minus 1, and the new spacing is the old spacing times
  the old dimension divided by the new dimension, in the arithmetic of doubles. It
  does apply the factor on every image whose extents are in range. The factor 2 on the
  extent [0, 9] with spacing 1 gives the extent [0, 19] of 20 voxels with spacing 0.5.
\<close>

theorem ApplyOversamplingOnImageGeometry_scaled:
  "(0.01 \<le> oversamplingFactor \<and> oversamplingFactor \<le> 100 \<and> oversamplingFactor \<noteq> 1
      \<and> ApplyOversamplingOnImageGeometry imageToWorld (Some grid) oversamplingFactor
          = Inr (Some scaled, diagnostics)
    \<longrightarrow> spec_scaled oversamplingFactor grid scaled)
   \<and> (0.01 \<le> oversamplingFactor \<and> oversamplingFactor \<le> 100 \<and> oversamplingFactor \<noteq> 1
      \<and> image_in_range grid
    \<longrightarrow> (\<exists>new. ApplyOversamplingOnImageGeometry imageToWorld (Some grid) oversamplingFactor
                  = Inr (Some new, [])
               \<and> spec_scaled oversamplingFactor grid new))
   \<and> ApplyOversamplingOnImageGeometry imageToWorld
        (Some \<lparr>Extent = ((0, 9), (0, 9), (0, 9)),
               Spacing = (Finite 1, Finite 1, Finite 1),
               Origin = (Finite 0, Finite 0, Finite 0),
               Directions = ((Finite 1, Finite 0, Finite 0), (Finite 0, Finite 1, Finite 0),
                             (Finite 0, Finite 0, Finite 1))\<rparr>) 2
       = Inr (Some \<lparr>Extent = ((0, 19), (0, 19), (0, 19)),
               Spacing = (Finite (1 / 2), Finite (1 / 2), Finite (1 / 2)),
               Origin = imageToWorld
                 (\<lparr>Extent = ((0, 19), (0, 19), (0, 19)),
                  Spacing = (Finite (1 / 2), Finite (1 / 2), Finite (1 / 2)),
                  Origin = (Finite 0, Finite 0, Finite 0),
                  Directions = ((Finite 1, Finite 0, Finite 0), (Finite 0, Finite 1, Finite 0),
                                (Finite 0, Finite 0, Finite 1))\<rparr>)
                 (Finite (- (1 / 2)), Finite (- (1 / 2)), Finite (- (1 / 2))),
               Directions = ((Finite 1, Finite 0, Finite 0), (Finite 0, Finite 1, Finite 0),
                             (Finite 0, Finite 0, Finite 1))\<rparr>, [])"
proof -
  have applied: "spec_scaled factor g new"
    if "ApplyOversamplingOnImageGeometry imageToWorld (Some g) factor = Inr (Some new, ds)"
      and "0.01 \<le> factor" "factor \<le> 100" "factor \<noteq> 1"
    for factor g new ds
  proof -
    obtain e0 e1 e2 where e: "Extent g = (e0, e1, e2)" by (cases "Extent g")
    obtain s0 s1 s2 where s: "Spacing g = (s0, s1, s2)" by (cases "Spacing g")
    from that e s have "\<exists>n0 t0 n1 t1 n2 t2.
        scaleAxis factor e0 s0 = Inr (n0, t0)
        \<and> scaleAxis factor e1 s1 = Inr (n1, t1)
        \<and> scaleAxis factor e2 s2 = Inr (n2, t2)
        \<and> Extent new = (n0, n1, n2) \<and> Spacing new = (t0, t1, t2)"
      by (auto simp: ApplyOversamplingOnImageGeometry_def Let_def
          dest!: bind_fault_Inr split: prod.splits)
    then obtain n0 t0 n1 t1 n2 t2 where
      ax: "scaleAxis factor e0 s0 = Inr (n0, t0)"
        "scaleAxis factor e1 s1 = Inr (n1, t1)"
        "scaleAxis factor e2 s2 = Inr (n2, t2)"
      and sc: "Extent new = (n0, n1, n2)" "Spacing new = (t0, t1, t2)"
      by blast
    from ax [THEN scaleAxis_spec] show ?thesis
      by (simp add: spec_scaled_def e s sc)
  qed
  have example: "ApplyOversamplingOnImageGeometry imageToWorld
        (Some \<lparr>Extent = ((0, 9), (0, 9), (0, 9)),
               Spacing = (Finite 1, Finite 1, Finite 1),
               Origin = (Finite 0, Finite 0, Finite 0),
               Directions = ((Finite 1, Finite 0, Finite 0), (Finite 0, Finite 1, Finite 0),
                             (Finite 0, Finite 0, Finite 1))\<rparr>) 2
       = Inr (Some \<lparr>Extent = ((0, 19), (0, 19), (0, 19)),
               Spacing = (Finite (1 / 2), Finite (1 / 2), Finite (1 / 2)),
               Origin = imageToWorld
                 (\<lparr>Extent = ((0, 19), (0, 19), (0, 19)),
                  Spacing = (Finite (1 / 2), Finite (1 / 2), Finite (1 / 2)),
                  Origin = (Finite 0, Finite 0, Finite 0),
                  Directions = ((Finite 1, Finite 0, Finite 0), (Finite 0, Finite 1, Finite 0),
                                (Finite 0, Finite 0, Finite 1))\<rparr>)
                 (Finite (- (1 / 2)), Finite (- (1 / 2)), Finite (- (1 / 2))),
               Directions = ((Finite 1, Finite 0, Finite 0), (Finite 0, Finite 1, Finite 0),
                             (Finite 0, Finite 0, Finite 1))\<rparr>, [])"
    by (simp add: ApplyOversamplingOnImageGeometry_def scaleAxis_example bind_fault_def
        newOrigin_example)
  show ?thesis
  proof (intro conjI impI)
    assume "0.01 \<le> oversamplingFactor \<and> oversamplingFactor \<le> 100 \<and> oversamplingFactor \<noteq> 1
      \<and> ApplyOversamplingOnImageGeometry imageToWorld (Some grid) oversamplingFactor
          = Inr (Some scaled, diagnostics)"
    then show "spec_scaled oversamplingFactor grid scaled"
      using applied by blast
  next
    assume a: "0.01 \<le> oversamplingFactor \<and> oversamplingFactor \<le> 100 \<and> oversamplingFactor \<noteq> 1
      \<and> image_in_range grid"
    then obtain new where
      "ApplyOversamplingOnImageGeometry imageToWorld (Some grid) oversamplingFactor
         = Inr (Some new, [])"
      using ApplyOversamplingOnImageGeometry_in_range by blast
    with a applied
    show "\<exists>new. ApplyOversamplingOnImageGeometry imageToWorld (Some grid) oversamplingFactor
                  = Inr (Some new, [])
               \<and> spec_scaled oversamplingFactor grid new"
      by blast
  next
    from example show "ApplyOversamplingOnImageGeometry imageToWorld
        (Some \<lparr>Extent = ((0, 9), (0, 9), (0, 9)),
               Spacing = (Finite 1, Finite 1, Finite 1),
               Origin = (Finite 0, Finite 0, Finite 0),
               Directions = ((Finite 1, Finite 0, Finite 0), (Finite 0, Finite 1, Finite 0),
                             (Finite 0, Finite 0, Finite 1))\<rparr>) 2
       = Inr (Some \<lparr>Extent = ((0, 19), (0, 19), (0, 19)),
               Spacing = (Finite (1 / 2), Finite (1 / 2), Finite (1 / 2)),
               Origin = imageToWorld
                 (\<lparr>Extent = ((0, 19), (0, 19), (0, 19)),
                  Spacing = (Finite (1 / 2), Finite (1 / 2), Finite (1 / 2)),
                  Origin = (Finite 0, Finite 0, Finite 0),
                  Directions = ((Finite 1, Finite 0, Finite 0), (Finite 0, Finite 1, Finite 0),
                                (Finite 0, Finite 0, Finite 1))\<rparr>)
                 (Finite (- (1 / 2)), Finite (- (1 / 2)), Finite (- (1 / 2))),
               Directions = ((Finite 1, Finite 0, Finite 0), (Finite 0, Finite 1, Finite 0),
                             (Finite 0, Finite 0, Finite 1))\<rparr>, [])" .
  qed
qed

theorem ApplyOversamplingOnImageGeometry_scaled_witness:
  "(0.01 :: real) \<le> 2 \<and> (2 :: real) \<le> 100 \<and> (2 :: real) \<noteq> 1
   \<and> image_in_range
        \<lparr>Extent = ((0, 9), (0, 9), (0, 9)),
               Spacing = (Finite 1, Finite 1, Finite 1),
               Origin = (Finite 0, Finite 0, Finite 0),
               Directions = ((Finite 1, Finite 0, Finite 0), (Finite 0, Finite 1, Finite 0),
                             (Finite 0, Finite 0, Finite 1))\<rparr>
   \<and> ApplyOversamplingOnImageGeometry (\<lambda>g p. p)
        (Some \<lparr>Extent = ((0, 9), (0, 9), (0, 9)),
               Spacing = (Finite 1, Finite 1, Finite 1),
               Origin = (Finite 0, Finite 0, Finite 0),
               Directions = ((Finite 1, Finite 0, Finite 0), (Finite 0, Finite 1, Finite 0),
                             (Finite 0, Finite 0, Finite 1))\<rparr>) 2
       = Inr (Some \<lparr>Extent = ((0, 19), (0, 19), (0, 19)),
               Spacing = (Finite (1 / 2), Finite (1 / 2), Finite (1 / 2)),
               Origin = (Finite (- (1 / 2)), Finite (- (1 / 2)), Finite (- (1 / 2))),
               Directions = ((Finite 1, Finite 0, Finite 0), (Finite 0, Finite 1, Finite 0),
                             (Finite 0, Finite 0, Finite 1))\<rparr>, [])
   \<and> spec_scaled 2
        \<lparr>Extent = ((0, 9), (0, 9), (0, 9)),
               Spacing = (Finite 1, Finite 1, Finite 1),
               Origin = (Finite 0, Finite 0, Finite 0),
               Directions = ((Finite 1, Finite 0, Finite 0), (Finite 0, Finite 1, Finite 0),
                             (Finite 0, Finite 0, Finite 1))\<rparr>
        \<lparr>Extent = ((0, 19), (0, 19), (0, 19)),
               Spacing = (Finite (1 / 2), Finite (1 / 2), Finite (1 / 2)),
               Origin = (Finite (- (1 / 2)), Finite (- (1 / 2)), Finite (- (1 / 2))),
               Directions = ((Finite 1, Finite 0, Finite 0), (Finite 0, Finite 1, Finite 0),
                             (Finite 0, Finite 0, Finite 1))\<rparr>"
proof -
  have range: "image_in_range
        \<lparr>Extent = ((0, 9), (0, 9), (0, 9)),
               Spacing = (Finite 1, Finite 1, Finite 1),
               Origin = (Finite 0, Finite 0, Finite 0),
               Directions = ((Finite 1, Finite 0, Finite 0), (Finite 0, Finite 1, Finite 0),
                             (Finite 0, Finite 0, Finite 1))\<rparr>"
    by (simp add: image_in_range_def axis_in_range_def)
  show ?thesis
    using ApplyOversamplingOnImageGeometry_scaled [of 2 "\<lambda>g p. p"
      "\<lparr>Extent = ((0, 9), (0, 9), (0, 9)),
               Spacing = (Finite 1, Finite 1, Finite 1),
               Origin = (Finite 0, Finite 0, Finite 0),
               Directions = ((Finite 1, Finite 0, Finite 0), (Finite 0, Finite 1, Finite 0),
                             (Finite 0, Finite 0, Finite 1))\<rparr>"
      "\<lparr>Extent = ((0, 19), (0, 19), (0, 19)),
               Spacing = (Finite (1 / 2), Finite (1 / 2), Finite (1 / 2)),
               Origin = (Finite (- (1 / 2)), Finite (- (1 / 2)), Finite (- (1 / 2))),
               Directions = ((Finite 1, Finite 0, Finite 0), (Finite 0, Finite 1, Finite 0),
                             (Finite 0, Finite 0, Finite 1))\<rparr>" "[]"] range
    by simp
qed

text \<open>
  C7. ApplyOversamplingOnImageGeometry leaves the image (extent, spacing, origin) as it
  is when the factor is exactly 1, without a diagnostic, and when the factor is below
  0.01 or above 100, where only the warning is emitted.
\<close>

theorem ApplyOversamplingOnImageGeometry_unchanged:
  "(oversamplingFactor = 1 \<longrightarrow>
      ApplyOversamplingOnImageGeometry imageToWorld (Some grid) oversamplingFactor
        = Inr (Some grid, []))
   \<and> (oversamplingFactor < 0.01 \<or> oversamplingFactor > 100 \<longrightarrow>
      ApplyOversamplingOnImageGeometry imageToWorld (Some grid) oversamplingFactor
        = Inr (Some grid, [unreasonable_factor]))"
  by (simp add: ApplyOversamplingOnImageGeometry_def)

theorem ApplyOversamplingOnImageGeometry_unchanged_witness:
  "(1 :: real) = 1
   \<and> ApplyOversamplingOnImageGeometry (\<lambda>g p. p)
        (Some \<lparr>Extent = ((0, 9), (0, 9), (0, 9)),
               Spacing = (Finite 1, Finite 1, Finite 1),
               Origin = (Finite 0, Finite 0, Finite 0),
               Directions = ((Finite 1, Finite 0, Finite 0), (Finite 0, Finite 1, Finite 0),
                             (Finite 0, Finite 0, Finite 1))\<rparr>) 1
       = Inr (Some \<lparr>Extent = ((0, 9), (0, 9), (0, 9)),
               Spacing = (Finite 1, Finite 1, Finite 1),
               Origin = (Finite 0, Finite 0, Finite 0),
               Directions = ((Finite 1, Finite 0, Finite 0), (Finite 0, Finite 1, Finite 0),
                             (Finite 0, Finite 0, Finite 1))\<rparr>, [])
   \<and> ((150 :: real) < 0.01 \<or> (150 :: real) > 100)
   \<and> ApplyOversamplingOnImageGeometry (\<lambda>g p. p)
        (Some \<lparr>Extent = ((0, 9), (0, 9), (0, 9)),
               Spacing = (Finite 1, Finite 1, Finite 1),
               Origin = (Finite 0, Finite 0, Finite 0),
               Directions = ((Finite 1, Finite 0, Finite 0), (Finite 0, Finite 1, Finite 0),
                             (Finite 0, Finite 0, Finite 1))\<rparr>) 150
       = Inr (Some \<lparr>Extent = ((0, 9), (0, 9), (0, 9)),
               Spacing = (Finite 1, Finite 1, Finite 1),
               Origin = (Finite 0, Finite 0, Finite 0),
               Directions = ((Finite 1, Finite 0, Finite 0), (Finite 0, Finite 1, Finite 0),
                             (Finite 0, Finite 0, Finite 1))\<rparr>, [unreasonable_factor])"
  using ApplyOversamplingOnImageGeometry_unchanged [of 1 "\<lambda>g p. p"
      "\<lparr>Extent = ((0, 9), (0, 9), (0, 9)),
               Spacing = (Finite 1, Finite 1, Finite 1),
               Origin = (Finite 0, Finite 0, Finite 0),
               Directions = ((Finite 1, Finite 0, Finite 0), (Finite 0, Finite 1, Finite 0),
                             (Finite 0, Finite 0, Finite 1))\<rparr>"]
    ApplyOversamplingOnImageGeometry_unchanged [of 150 "\<lambda>g p. p"
      "\<lparr>Extent = ((0, 9), (0, 9), (0, 9)),
               Spacing = (Finite 1, Finite 1, Finite 1),
               Origin = (Finite 0, Finite 0, Finite 0),
               Directions = ((Finite 1, Finite 0, Finite 0), (Finite 0, Finite 1, Finite 0),
                             (Finite 0, Finite 0, Finite 1))\<rparr>"]
  by simp

text \<open>
  C8. Whenever the size measure or the complexity measure is the failure value -1,
  DetermineOversamplingFactor reports an error and returns exactly 1.
\<close>

theorem DetermineOversamplingFactor_invalid_measure:
  "relativeStructureSize = - 1 \<or> complexityMeasure = - 1 \<Longrightarrow>
   DetermineOversamplingFactor relativeStructureSize complexityMeasure
     = (Inr 1, [Error ''DetermineOversamplingFactor: Invalid input measures! Returning default oversampling of 1''])"
  by (simp add: DetermineOversamplingFactor_def)

theorem DetermineOversamplingFactor_invalid_measure_witness:
  "((- 1 :: real) = - 1 \<or> (3 / 10 :: real) = - 1)
   \<and> fst (DetermineOversamplingFactor (- 1) (3 / 10)) = Inr 1
   \<and> length (snd (DetermineOversamplingFactor (- 1) (3 / 10))) = 1
   \<and> ((2 :: real) = - 1 \<or> (- 1 :: real) = - 1)
   \<and> fst (DetermineOversamplingFactor 2 (- 1)) = Inr 1"
  using DetermineOversamplingFactor_invalid_measure [of "- 1" "3 / 10"]
    DetermineOversamplingFactor_invalid_measure [of 2 "- 1"]
  by simp

text \<open>
  C9, as stated, fails: with the volume 1 and the projected volume 2 the discrepancy
  is far above 0.01 percent of the volume, and the diagnostic is not emitted.
\<close>

theorem CalculateRelativeStructureSize_projected_larger:
  "\<bar>(1 :: real) - 2\<bar> * 10000 > 1
   \<and> volume_warning \<notin> set (snd (CalculateRelativeStructureSize
      \<lparr>InputPolyData = Some PolyData,
       ReferenceGeometryImageData = Some
         \<lparr>Extent = ((0, 9), (0, 9), (0, 9)), Spacing = (1, 1, 1), Origin = (0, 0, 0),
          Directions = ((1, 0, 0), (0, 1, 0), (0, 0, 1))\<rparr>,
       MassPropertiesAlgorithm = Some
         \<lparr>Volume = 1, VolumeProjected = 2, NormalizedShapeIndex = 1\<rparr>,
       OutputOversamplingFactor = 1\<rparr>))"
  by (simp add: CalculateRelativeStructureSize_def diagnostics_differ)

text \<open>
  C9, amended. With its three inputs present, CalculateRelativeStructureSize emits the
  diagnostic exactly when (volume - projectedVolume) * 10000 > volume, the difference
  taken with its sign. The diagnostic does not stop the function, and the value
  returned does not depend on the projected volume: it is minus the decimal logarithm
  of the mesh volume divided by the reference volume.
\<close>

theorem CalculateRelativeStructureSize_sanity_check:
  assumes "InputPolyData this = Some polyData"
    and "ReferenceGeometryImageData this = Some reference"
    and "MassPropertiesAlgorithm this = Some massProperties"
  shows "(volume_warning \<in> set (snd (CalculateRelativeStructureSize this)))
         = ((Volume massProperties - VolumeProjected massProperties) * 10000
              > Volume massProperties)
    \<and> fst (CalculateRelativeStructureSize this) = sizeMeasure (Volume massProperties) reference
    \<and> fst (CalculateRelativeStructureSize
          (this\<lparr>MassPropertiesAlgorithm :=
                  Some (massProperties\<lparr>VolumeProjected := otherProjected\<rparr>)\<rparr>))
        = fst (CalculateRelativeStructureSize this)
    \<and> (\<forall>v. volumeVolume reference = Inr v \<and> 0 < Volume massProperties / v \<longrightarrow>
          fst (CalculateRelativeStructureSize this)
            = Inr (- log 10 (Volume massProperties / v)))"
  using assms diagnostics_differ
  by (auto simp: CalculateRelativeStructureSize_def Let_def sizeMeasure_def bind_fault_def
      double_div_def)

theorem CalculateRelativeStructureSize_sanity_check_witness:
  "volume_warning \<in> set (snd (CalculateRelativeStructureSize
      \<lparr>InputPolyData = Some PolyData,
       ReferenceGeometryImageData = Some
         \<lparr>Extent = ((0, 9), (0, 9), (0, 9)), Spacing = (1, 1, 1), Origin = (0, 0, 0),
          Directions = ((1, 0, 0), (0, 1, 0), (0, 0, 1))\<rparr>,
       MassPropertiesAlgorithm = Some
         \<lparr>Volume = 1000, VolumeProjected = 999, NormalizedShapeIndex = 1\<rparr>,
       OutputOversamplingFactor = 1\<rparr>))
   \<and> volumeVolume \<lparr>Extent = ((0, 9), (0, 9), (0, 9)), Spacing = (1, 1, 1), Origin = (0, 0, 0),
          Directions = ((1, 0, 0), (0, 1, 0), (0, 0, 1))\<rparr> = Inr 1000
   \<and> fst (CalculateRelativeStructureSize
      \<lparr>InputPolyData = Some PolyData,
       ReferenceGeometryImageData = Some
         \<lparr>Extent = ((0, 9), (0, 9), (0, 9)), Spacing = (1, 1, 1), Origin = (0, 0, 0),
          Directions = ((1, 0, 0), (0, 1, 0), (0, 0, 1))\<rparr>,
       MassPropertiesAlgorithm = Some
         \<lparr>Volume = 1000, VolumeProjected = 999, NormalizedShapeIndex = 1\<rparr>,
       OutputOversamplingFactor = 1\<rparr>) = Inr 0"
proof -
  have v: "volumeVolume \<lparr>Extent = ((0, 9), (0, 9), (0, 9)), Spacing = (1, 1, 1),
      Origin = (0, 0, 0), Directions = ((1, 0, 0), (0, 1, 0), (0, 0, 1))\<rparr> = Inr 1000"
    by (simp add: volumeVolume_def GetDimension_def int_sub_def int_add_def int_mul_def
        int_result_def INT_MIN_def INT_MAX_def bind_fault_def)
  show ?thesis
    using CalculateRelativeStructureSize_sanity_check [of
      "\<lparr>InputPolyData = Some PolyData,
       ReferenceGeometryImageData = Some
         \<lparr>Extent = ((0, 9), (0, 9), (0, 9)), Spacing = (1, 1, 1), Origin = (0, 0, 0),
          Directions = ((1, 0, 0), (0, 1, 0), (0, 0, 1))\<rparr>,
       MassPropertiesAlgorithm = Some
         \<lparr>Volume = 1000, VolumeProjected = 999, NormalizedShapeIndex = 1\<rparr>,
       OutputOversamplingFactor = 1\<rparr>" PolyData
      "\<lparr>Extent = ((0, 9), (0, 9), (0, 9)), Spacing = (1, 1, 1), Origin = (0, 0, 0),
          Directions = ((1, 0, 0), (0, 1, 0), (0, 0, 1))\<rparr>"
      "\<lparr>Volume = 1000, VolumeProjected = 999, NormalizedShapeIndex = 1\<rparr>" 999] v
    by auto
qed

text \<open>
  C10. With a null image pointer ApplyOversamplingOnImageGeometry returns at once, for
  every factor: nothing is changed and no diagnostic is emitted.
\<close>

theorem ApplyOversamplingOnImageGeometry_null:
  "ApplyOversamplingOnImageGeometry imageToWorld None oversamplingFactor = Inr (None, [])"
  by (simp add: ApplyOversamplingOnImageGeometry_def)

end
